theory Spec2Isabelle
  imports Complex_Main "HOL-Library.Sublist"
begin

section \<open>Item controllers of the Vingo backend\<close>

text \<open>
  A shallow embedding of \<^verbatim>\<open>backend/controllers/item.controllers.js\<close>: the eight
  request handlers \<^verbatim>\<open>addItem\<close>, \<^verbatim>\<open>editItem\<close>, \<^verbatim>\<open>getItemById\<close>,
  \<^verbatim>\<open>deleteItem\<close>, \<^verbatim>\<open>getItemByCity\<close>, \<^verbatim>\<open>getItemsByShop\<close>,
  \<^verbatim>\<open>searchItems\<close> and \<^verbatim>\<open>rating\<close>. A handler is a function from the request's
  inputs and the state (the two collections and the in-memory cache) to the response
  it sends, if any, and the state it leaves.

  A number is a value of the binary64 format, as in the source: a rational that the
  format holds, an infinity or \<^verbatim>\<open>NaN\<close>, and \<open>+\<close>, \<open>*\<close>, \<open>/\<close> round to nearest, ties
  to even. A string is its sequence of bytes (UTF-8). Lower-casing and caseless matching
  are written out for strings of ASCII characters; for a string with a byte outside ASCII
  they are parameters of the model.
\<close>

subsection \<open>What a request finds outside the state\<close>

text \<open>
  The clock (milliseconds), the id the driver gives to a created document, which calls
  of the Persistence Store reject (the \<open>k\<close>-th call of the handler rejects with error
  \<open>e\<close> when \<open>db_fault k = Some e\<close>: store unreachable, id that cannot be cast,
  validation failure), the regular-expression engine on the patterns not written out
  below (\<open>rx_other\<close>, \<open>Inl\<close>: the pattern is rejected) and on strings with a byte outside
  ASCII (\<open>rx_wide pattern string\<close>), and \<^verbatim>\<open>String.prototype.toLowerCase\<close> on such
  strings (\<open>lower_other\<close>).
\<close>

record env =
  now :: nat
  new_oid :: string
  db_fault :: "nat \<Rightarrow> string option"
  rx_other :: "string \<Rightarrow> string + (string \<Rightarrow> bool)"
  rx_wide :: "string \<Rightarrow> string \<Rightarrow> bool"
  lower_other :: "string \<Rightarrow> string"

subsection \<open>Strings\<close>

definition toLowerChar :: "char \<Rightarrow> char" where
  "toLowerChar c =
     (case map_of (zip ''ABCDEFGHIJKLMNOPQRSTUVWXYZ'' ''abcdefghijklmnopqrstuvwxyz'') c of
        Some l \<Rightarrow> l
      | None \<Rightarrow> c)"

definition ascii :: "char \<Rightarrow> bool" where
  "ascii c = (\<not> digit7 c)"

definition toLowerCase :: "env \<Rightarrow> string \<Rightarrow> string" where
  "toLowerCase E s = (if list_all ascii s then map toLowerChar s else lower_other E s)"

subsection \<open>Numbers\<close>

text \<open>
  \<open>Num x\<close> is the finite value \<open>x\<close>. The two zeros of the format are one value here:
  they compare equal, are both falsy and both print as \<^verbatim>\<open>0\<close>; where the sign of a zero
  divisor matters it is taken as \<open>+0\<close>, which is what a sum such as \<^verbatim>\<open>count + 1\<close> gives.
\<close>

datatype jsnum = Num rat | PlusInf | MinusInf | NaN

definition pow2 :: "int \<Rightarrow> rat" where
  "pow2 k = 2 powi k"

text \<open>
  The greatest \<open>k\<close> from \<open>lo\<close> up to \<open>lo + 2 ^ n - 1\<close> with \<open>2 ^ k \<le> x\<close> (\<open>lo\<close> if there is
  none), by bisection. From \<open>-1022\<close> it is the exponent of the binade of \<open>x\<close>, and
  \<open>-1022\<close> itself for a subnormal \<open>x\<close>.
\<close>

fun expo_search :: "nat \<Rightarrow> int \<Rightarrow> rat \<Rightarrow> int" where
  "expo_search 0 lo x = lo"
| "expo_search (Suc n) lo x =
     (if pow2 (lo + 2 ^ n) \<le> x then expo_search n (lo + 2 ^ n) x else expo_search n lo x)"

definition exponent :: "rat \<Rightarrow> int" where
  "exponent x = expo_search 12 (- 1022) x"

definition roundHalfEven :: "rat \<Rightarrow> int" where
  "roundHalfEven m =
     (let f = \<lfloor>m\<rfloor>; d = m - of_int f
      in if d < 1 / 2 then f else if 1 / 2 < d then f + 1 else if even f then f else f + 1)"

text \<open>
  Rounding an exact result to the format: 53 significant bits in the binade of the
  result, an infinity from \<open>2 ^ 1024\<close> on.
\<close>

definition fl :: "rat \<Rightarrow> jsnum" where
  "fl x =
     (if x = 0 then Num 0
      else
        let a = \<bar>x\<bar>;
            q = pow2 (exponent a - 52);
            y = of_int (roundHalfEven (a / q)) * q
        in if pow2 1024 \<le> y then (if 0 < x then PlusInf else MinusInf)
           else Num (if 0 < x then y else - y))"

definition infinity :: "bool \<Rightarrow> jsnum" where
  "infinity pos = (if pos then PlusInf else MinusInf)"

fun positive :: "jsnum \<Rightarrow> bool" where
  "positive (Num a) = (0 \<le> a)"
| "positive PlusInf = True"
| "positive MinusInf = False"
| "positive NaN = False"

fun jadd :: "jsnum \<Rightarrow> jsnum \<Rightarrow> jsnum" where
  "jadd NaN b = NaN"
| "jadd a NaN = NaN"
| "jadd (Num a) (Num b) = fl (a + b)"
| "jadd PlusInf MinusInf = NaN"
| "jadd MinusInf PlusInf = NaN"
| "jadd (Num a) b = b"
| "jadd a b = a"

fun jmul :: "jsnum \<Rightarrow> jsnum \<Rightarrow> jsnum" where
  "jmul NaN b = NaN"
| "jmul a NaN = NaN"
| "jmul (Num a) (Num b) = fl (a * b)"
| "jmul (Num a) b = (if a = 0 then NaN else infinity (positive (Num a) = positive b))"
| "jmul a (Num b) = (if b = 0 then NaN else infinity (positive a = positive (Num b)))"
| "jmul a b = infinity (positive a = positive b)"

fun jdiv :: "jsnum \<Rightarrow> jsnum \<Rightarrow> jsnum" where
  "jdiv NaN b = NaN"
| "jdiv a NaN = NaN"
| "jdiv (Num a) (Num b) =
     (if b = 0 then (if a = 0 then NaN else infinity (0 < a)) else fl (a / b))"
| "jdiv (Num a) b = Num 0"
| "jdiv a (Num b) = infinity (positive a = (0 \<le> b))"
| "jdiv a b = NaN"

text \<open>The order in which the store sorts numbers: \<^verbatim>\<open>NaN\<close> first, then by value.\<close>

fun num_le :: "jsnum \<Rightarrow> jsnum \<Rightarrow> bool" where
  "num_le NaN b = True"
| "num_le a NaN = False"
| "num_le MinusInf b = True"
| "num_le a MinusInf = False"
| "num_le a PlusInf = True"
| "num_le PlusInf b = False"
| "num_le (Num a) (Num b) = (a \<le> b)"

subsection \<open>Regular expressions\<close>

text \<open>
  The handlers hand the request's \<^verbatim>\<open>city\<close> and \<^verbatim>\<open>query\<close> to the regular-expression
  engine unescaped: \<^verbatim>\<open>new RegExp(`^${city}$`, "i")\<close> and
  \<^verbatim>\<open>{ $regex: query, $options: "i" }\<close>. The engine is not part of the repository. Its
  behaviour is written out here, on ASCII strings, for the ASCII patterns that are a
  sequence of ordinary characters, \<^verbatim>\<open>.\<close>, \<^verbatim>\<open>\d\<close>, \<^verbatim>\<open>\D\<close> and escaped
  metacharacters, with an optional \<^verbatim>\<open>^\<close> in front and an optional \<^verbatim>\<open>$\<close> at the end;
  on a string with a byte outside ASCII such a pattern is answered by the parameter
  \<open>rx_wide\<close>. Every other pattern
  is answered by a parameter of the model (\<open>rx_other\<close>), which either rejects
  the pattern or gives the set of strings it matches. The strings a pattern is tested
  on (names, categories, cities) are taken to be single lines: on these the engine of
  the driver and the engine of the store agree about \<^verbatim>\<open>.\<close> and \<^verbatim>\<open>$\<close>.
\<close>

datatype rx_atom = RLit char | RAny | RDigit | RNonDigit

record regex =
  anchor_start :: bool
  atoms :: "rx_atom list"
  anchor_end :: bool

definition backslash :: char where
  "backslash = CHR 0x5C"

definition rx_special :: "char \<Rightarrow> bool" where
  "rx_special c = (c \<in> set (backslash # ''^$.|?*+()[]{}''))"

definition rx_escape :: "char \<Rightarrow> rx_atom option" where
  "rx_escape d =
     (if d = CHR ''d'' then Some RDigit
      else if d = CHR ''D'' then Some RNonDigit
      else if rx_special d then Some (RLit d)
      else None)"

definition rx_cons :: "rx_atom \<Rightarrow> (rx_atom list \<times> bool) option \<Rightarrow> (rx_atom list \<times> bool) option" where
  "rx_cons a r = (case r of None \<Rightarrow> None | Some (as, e) \<Rightarrow> Some (a # as, e))"

fun rx_atoms :: "string \<Rightarrow> (rx_atom list \<times> bool) option" where
  "rx_atoms [] = Some ([], False)"
| "rx_atoms [c] =
     (if c = CHR ''$'' then Some ([], True)
      else if c = CHR ''.'' then Some ([RAny], False)
      else if rx_special c then None
      else Some ([RLit c], False))"
| "rx_atoms (c # d # cs) =
     (if c = backslash then
        (case rx_escape d of None \<Rightarrow> None | Some a \<Rightarrow> rx_cons a (rx_atoms cs))
      else if c = CHR ''.'' then rx_cons RAny (rx_atoms (d # cs))
      else if rx_special c then None
      else rx_cons (RLit c) (rx_atoms (d # cs)))"

definition rx_parse :: "string \<Rightarrow> regex option" where
  "rx_parse p =
     (case p of
        [] \<Rightarrow> Some \<lparr>anchor_start = False, atoms = [], anchor_end = False\<rparr>
      | c # cs \<Rightarrow>
          if c = CHR ''^'' then
            (case rx_atoms cs of None \<Rightarrow> None
             | Some (as, e) \<Rightarrow> Some \<lparr>anchor_start = True, atoms = as, anchor_end = e\<rparr>)
          else
            (case rx_atoms p of None \<Rightarrow> None
             | Some (as, e) \<Rightarrow> Some \<lparr>anchor_start = False, atoms = as, anchor_end = e\<rparr>))"

definition isDigit :: "char \<Rightarrow> bool" where
  "isDigit c = (c \<in> set ''0123456789'')"

text \<open>One atom against one character, under the flag \<^verbatim>\<open>i\<close>.\<close>

fun atom_match :: "rx_atom \<Rightarrow> char \<Rightarrow> bool" where
  "atom_match (RLit c) x = (toLowerChar c = toLowerChar x)"
| "atom_match RAny x = (x \<noteq> CHR 0x0A \<and> x \<noteq> CHR 0x0D)"
| "atom_match RDigit x = isDigit x"
| "atom_match RNonDigit x = (\<not> isDigit x)"

text \<open>The atoms against the characters from the current position on.\<close>

fun rx_here :: "bool \<Rightarrow> rx_atom list \<Rightarrow> string \<Rightarrow> bool" where
  "rx_here e [] s = (if e then s = [] else True)"
| "rx_here e (a # as) [] = False"
| "rx_here e (a # as) (x # xs) = (atom_match a x \<and> rx_here e as xs)"

text \<open>An unanchored pattern is tried at every position.\<close>

fun rx_scan :: "bool \<Rightarrow> rx_atom list \<Rightarrow> string \<Rightarrow> bool" where
  "rx_scan e as [] = rx_here e as []"
| "rx_scan e as (x # xs) = (rx_here e as (x # xs) \<or> rx_scan e as xs)"

definition rx_test :: "regex \<Rightarrow> string \<Rightarrow> bool" where
  "rx_test r s =
     (if anchor_start r then rx_here (anchor_end r) (atoms r) s
      else rx_scan (anchor_end r) (atoms r) s)"

subsection \<open>Data model\<close>

text \<open>
  Modelled from the spec: the schemas \<^verbatim>\<open>models/item.model.js\<close> and
  \<^verbatim>\<open>models/shop.model.js\<close> are not among the sources. An item has \<^verbatim>\<open>name\<close>,
  \<^verbatim>\<open>category\<close>, \<^verbatim>\<open>foodType\<close>, \<^verbatim>\<open>price\<close>, \<^verbatim>\<open>image\<close> (URL or absent),
  \<^verbatim>\<open>rating {average, count}\<close> (two numbers), and \<^verbatim>\<open>shop\<close>; a shop has
  \<^verbatim>\<open>name\<close>, \<^verbatim>\<open>image\<close>, \<^verbatim>\<open>city\<close>, \<^verbatim>\<open>owner\<close> and the ordered list
  \<^verbatim>\<open>items\<close> of item ids. The fields of \<open>item_proj\<close> are those of the controller's
  \<^verbatim>\<open>itemProjection\<close> (with \<^verbatim>\<open>_id\<close>), those of \<open>shop_proj\<close> are those of its
  \<^verbatim>\<open>shopProjection\<close>. \<^verbatim>\<open>updatedAt\<close> is the timestamp the handlers sort by.
\<close>

type_synonym oid = string

record rating_t =
  average :: jsnum
  count :: jsnum

record item_proj =
  item_id :: oid
  item_name :: string
  item_category :: string
  item_foodType :: string
  item_price :: rat
  item_image :: "string option"
  item_rating :: rating_t
  item_shop :: oid

record item = item_proj +
  item_updatedAt :: nat

record shop_proj =
  shop_id :: oid
  shop_name :: string
  shop_image :: string
  shop_city :: string

record shop = shop_proj +
  shop_owner :: oid
  shop_items :: "oid list"

text \<open>What \<^verbatim>\<open>getItemByCity\<close> attaches to an item: \<^verbatim>\<open>{ name, image }\<close> of its shop.\<close>

record shop_info =
  info_name :: string
  info_image :: string

record item_with_shop = item_proj +
  shopInfo :: "shop_info option"

text \<open>A shop document after \<^verbatim>\<open>populate("items")\<close>: the ids are replaced by the items.\<close>

record shop_populated = shop_proj +
  pop_owner :: oid
  pop_items :: "item list"

datatype body =
    Message string
  | ShopBody "shop_populated option"
  | ItemBody item
  | CityItems "item_with_shop list"
  | ShopItems shop_proj "item_proj list"
  | FoundItems "item_proj list"
  | RatingBody rating_t

record response =
  status :: nat
  body :: body

text \<open>
  The state: the two collections in their natural order, and the entries of the
  process-wide \<^verbatim>\<open>NodeCache\<close>, each with the time (in milliseconds) at which it expires.
\<close>

record state =
  item_coll :: "item list"
  shop_coll :: "shop list"
  cache :: "string \<rightharpoonup> nat \<times> body"

datatype upload_result = UploadRejected string | UploadResolved string

text \<open>The fields of the request body of \<^verbatim>\<open>addItem\<close> and of \<^verbatim>\<open>editItem\<close>.\<close>

record new_fields =
  new_name :: string
  new_category :: string
  new_foodType :: string
  new_price :: rat

record edit_fields =
  edit_name :: "string option"
  edit_category :: "string option"
  edit_foodType :: "string option"
  edit_price :: "rat option"

subsection \<open>Asynchronous steps, exceptions and responses\<close>

text \<open>
  A step of a handler runs on the state and either throws (\<open>Inl\<close>, the error's text)
  or yields a value; the state it leaves is kept in both cases, as the effects of an
  \<^verbatim>\<open>await\<close>ed call are when a later call throws.
\<close>

type_synonym 'a action = "state \<Rightarrow> (string + 'a) \<times> state"

definition thenDo :: "'a action \<Rightarrow> ('a \<Rightarrow> 'b action) \<Rightarrow> 'b action" where
  "thenDo m f s = (case m s of (Inl e, s') \<Rightarrow> (Inl e, s') | (Inr x, s') \<Rightarrow> f x s')"

definition throw :: "string \<Rightarrow> 'a action" where
  "throw e s = (Inl e, s)"

text \<open>\<^verbatim>\<open>return res.status(st).json(b)\<close>\<close>

definition respond :: "nat \<Rightarrow> body \<Rightarrow> response option action" where
  "respond st b s = (Inr (Some \<lparr>status = st, body = b\<rparr>), s)"

text \<open>\<^verbatim>\<open>return null\<close>: the handler ends and nothing has been sent.\<close>

definition noResponse :: "response option action" where
  "noResponse s = (Inr None, s)"

text \<open>\<^verbatim>\<open>try { ... } catch (error) { return res.status(500).json({ message: `pre ${error}` }) }\<close>\<close>

definition tryCatch :: "string \<Rightarrow> response option action \<Rightarrow> state \<Rightarrow> response option \<times> state" where
  "tryCatch pre m s =
     (case m s of
        (Inl e, s') \<Rightarrow> (Some \<lparr>status = 500, body = Message (pre @ e)\<rparr>, s')
      | (Inr r, s') \<Rightarrow> (r, s'))"

text \<open>The \<open>k\<close>-th call of the Persistence Store in a handler.\<close>

definition db :: "env \<Rightarrow> nat \<Rightarrow> (state \<Rightarrow> 'a \<times> state) \<Rightarrow> 'a action" where
  "db E k op s =
     (case db_fault E k of
        Some e \<Rightarrow> (Inl e, s)
      | None \<Rightarrow> (case op s of (x, s') \<Rightarrow> (Inr x, s')))"

text \<open>
  Modelled from the spec: the Asset Uploader \<^verbatim>\<open>utils/cloudinary.js\<close> is not among the
  sources. It "takes a local file path, returns a durable URL or fails" with
  \<^verbatim>\<open>UploadError\<close>; the outcome of the remote call is an input of the model.
\<close>

definition uploadOnCloudinary :: "upload_result \<Rightarrow> string action" where
  "uploadOnCloudinary r s = (case r of UploadRejected e \<Rightarrow> (Inl e, s) | UploadResolved url \<Rightarrow> (Inr url, s))"

text \<open>\<^verbatim>\<open>let image; if (req.file) { image = await uploadOnCloudinary(req.file.path); }\<close>\<close>

definition uploadIfFile :: "upload_result option \<Rightarrow> string option action" where
  "uploadIfFile file =
     (case file of
        None \<Rightarrow> (\<lambda>s. (Inr None, s))
      | Some r \<Rightarrow> thenDo (uploadOnCloudinary r) (\<lambda>url s. (Inr (Some url), s)))"

text \<open>Compiling a pattern with the flag \<^verbatim>\<open>i\<close>: it is rejected, or it gives a test on strings.\<close>

definition regex_i :: "env \<Rightarrow> string \<Rightarrow> (string \<Rightarrow> bool) action" where
  "regex_i E p s =
     (case (if list_all ascii p then rx_parse p else None) of
        Some r \<Rightarrow> (Inr (\<lambda>x. if list_all ascii x then rx_test r x else rx_wide E p x), s)
      | None \<Rightarrow> (rx_other E p, s))"

subsection \<open>The cache\<close>

text \<open>
  \<^verbatim>\<open>new NodeCache({ stdTTL: 300, checkperiod: 60 })\<close>: \<^verbatim>\<open>set\<close> stores the value with
  the expiry time \<open>now + 300 s\<close>, \<^verbatim>\<open>get\<close> misses on an absent key and on an entry whose
  expiry time has passed.
\<close>

definition stdTTL :: nat where
  "stdTTL = 300"

definition cache_get :: "env \<Rightarrow> string \<Rightarrow> state \<Rightarrow> body option" where
  "cache_get E k s =
     (case cache s k of
        None \<Rightarrow> None
      | Some (t, v) \<Rightarrow> if t < now E then None else Some v)"

definition cache_set :: "env \<Rightarrow> string \<Rightarrow> body \<Rightarrow> unit action" where
  "cache_set E k v s = (Inr (), s\<lparr>cache := (cache s)(k \<mapsto> (now E + stdTTL * 1000, v))\<rparr>)"

subsection \<open>The Persistence Store\<close>

text \<open>
  Modelled from the spec: the Persistence Store (the Mongoose models \<^verbatim>\<open>Item\<close> and
  \<^verbatim>\<open>Shop\<close>) with "create/find/update/delete by id and by filter, with field
  projection and sort/limit". A collection is the list of its documents in natural
  order; a sort is stable; \<^verbatim>\<open>limit\<close> applies to the sorted result; a created item
  starts with the rating \<^verbatim>\<open>{average: 0, count: 0}\<close>; a write of an item stamps its
  \<^verbatim>\<open>updatedAt\<close> with the clock.
\<close>

definition query :: "(state \<Rightarrow> 'a) \<Rightarrow> state \<Rightarrow> 'a \<times> state" where
  "query q s = (q s, s)"

definition Shop_findOne_owner :: "oid \<Rightarrow> state \<Rightarrow> shop option" where
  "Shop_findOne_owner uid s = find (\<lambda>sh. shop_owner sh = uid) (shop_coll s)"

definition Shop_findById :: "oid \<Rightarrow> state \<Rightarrow> shop option" where
  "Shop_findById sid s = find (\<lambda>sh. shop_id sh = sid) (shop_coll s)"

definition Shop_find :: "(shop \<Rightarrow> bool) \<Rightarrow> state \<Rightarrow> shop list" where
  "Shop_find p s = filter p (shop_coll s)"

definition Shop_save :: "shop \<Rightarrow> state \<Rightarrow> unit \<times> state" where
  "Shop_save sh s =
     ((), s\<lparr>shop_coll := map (\<lambda>x. if shop_id x = shop_id sh then sh else x) (shop_coll s)\<rparr>)"

definition Item_findById :: "oid \<Rightarrow> state \<Rightarrow> item option" where
  "Item_findById iid s = find (\<lambda>it. item_id it = iid) (item_coll s)"

definition Item_find :: "(item \<Rightarrow> bool) \<Rightarrow> state \<Rightarrow> item list" where
  "Item_find p s = filter p (item_coll s)"

text \<open>\<^verbatim>\<open>.sort({ "rating.average": -1 })\<close>, \<^verbatim>\<open>.limit(n)\<close>, \<^verbatim>\<open>.select(itemProjection)\<close>\<close>

fun insertByRating :: "item \<Rightarrow> item list \<Rightarrow> item list" where
  "insertByRating x [] = [x]"
| "insertByRating x (y # ys) =
     (if num_le (average (item_rating y)) (average (item_rating x)) then x # y # ys
      else y # insertByRating x ys)"

definition sortByRatingDesc :: "item list \<Rightarrow> item list" where
  "sortByRatingDesc xs = foldr insertByRating xs []"

definition limit :: "nat \<Rightarrow> 'a list \<Rightarrow> 'a list" where
  "limit n xs = take n xs"

definition select_item :: "item list \<Rightarrow> item_proj list" where
  "select_item xs = map item_proj.truncate xs"

definition Item_create :: "env \<Rightarrow> new_fields \<Rightarrow> string option \<Rightarrow> oid \<Rightarrow> state \<Rightarrow> item \<times> state" where
  "Item_create E f img sid s =
     (let it = \<lparr>item_id = new_oid E, item_name = new_name f, item_category = new_category f,
                item_foodType = new_foodType f, item_price = new_price f, item_image = img,
                item_rating = \<lparr>average = Num 0, count = Num 0\<rparr>, item_shop = sid,
                item_updatedAt = now E\<rparr>
      in (it, s\<lparr>item_coll := item_coll s @ [it]\<rparr>))"

definition orElse :: "'a option \<Rightarrow> 'a \<Rightarrow> 'a" where
  "orElse x d = (case x of None \<Rightarrow> d | Some v \<Rightarrow> v)"

text \<open>
  \<^verbatim>\<open>Item.findByIdAndUpdate(itemId, { name, category, foodType, price, image }, { new: true })\<close>:
  a field that is \<^verbatim>\<open>undefined\<close> is left as it is; the updated document is returned.
\<close>

definition Item_findByIdAndUpdate ::
  "env \<Rightarrow> oid \<Rightarrow> edit_fields \<Rightarrow> string option \<Rightarrow> state \<Rightarrow> item option \<times> state" where
  "Item_findByIdAndUpdate E iid f img s =
     (case Item_findById iid s of
        None \<Rightarrow> (None, s)
      | Some it \<Rightarrow>
          (let it' = it\<lparr>item_name := orElse (edit_name f) (item_name it),
                        item_category := orElse (edit_category f) (item_category it),
                        item_foodType := orElse (edit_foodType f) (item_foodType it),
                        item_price := orElse (edit_price f) (item_price it),
                        item_image := (case img of None \<Rightarrow> item_image it | Some u \<Rightarrow> Some u),
                        item_updatedAt := now E\<rparr>
           in (Some it',
               s\<lparr>item_coll := map (\<lambda>x. if item_id x = iid then it' else x) (item_coll s)\<rparr>)))"

definition Item_findByIdAndDelete :: "oid \<Rightarrow> state \<Rightarrow> item option \<times> state" where
  "Item_findByIdAndDelete iid s =
     (Item_findById iid s, s\<lparr>item_coll := filter (\<lambda>it. item_id it \<noteq> iid) (item_coll s)\<rparr>)"

definition Item_save :: "env \<Rightarrow> item \<Rightarrow> state \<Rightarrow> item \<times> state" where
  "Item_save E it s =
     (let it' = it\<lparr>item_updatedAt := now E\<rparr>
      in (it', s\<lparr>item_coll := map (\<lambda>x. if item_id x = item_id it then it' else x) (item_coll s)\<rparr>))"

text \<open>
  \<^verbatim>\<open>populate({ path: "items", options: { sort: { updatedAt: -1 } } })\<close>: the items whose
  id is in the list, most recently updated first; an id with no item yields nothing.
\<close>

definition populate_items :: "oid list \<Rightarrow> state \<Rightarrow> item list" where
  "populate_items ids s =
     sort_key (\<lambda>it. - int (item_updatedAt it)) (filter (\<lambda>it. item_id it \<in> set ids) (item_coll s))"

definition populated :: "shop \<Rightarrow> item list \<Rightarrow> shop_populated" where
  "populated sh its =
     \<lparr>shop_id = shop_id sh, shop_name = shop_name sh, shop_image = shop_image sh,
      shop_city = shop_city sh, pop_owner = shop_owner sh, pop_items = its\<rparr>"

text \<open>\<^verbatim>\<open>populate("owner")\<close> reads the users' collection, which is outside this model.\<close>

definition populate_owner :: "state \<Rightarrow> unit \<times> state" where
  "populate_owner s = ((), s)"

subsection \<open>Object identity\<close>

text \<open>
  An \<^verbatim>\<open>ObjectId\<close> is an object: \<^verbatim>\<open>!==\<close> compares the two references, not the twelve
  bytes. Every document read from the store is built anew, so the \<^verbatim>\<open>_id\<close> of the item
  just read and the elements of \<^verbatim>\<open>shop.items\<close> are objects at different addresses.
  \<open>ref\<close> is the address, counted from the start of the request.
\<close>

record objectid =
  ref :: nat
  hex :: oid

definition hydrate_ids :: "nat \<Rightarrow> oid list \<Rightarrow> objectid list" where
  "hydrate_ids n ids = map (\<lambda>(k, h). \<lparr>ref = k, hex = h\<rparr>) (zip [n ..< n + length ids] ids)"

definition strict_neq :: "objectid \<Rightarrow> objectid \<Rightarrow> bool" where
  "strict_neq a b = (ref a \<noteq> ref b)"

definition null_items_error :: string where
  "null_items_error =
     ''TypeError: Cannot read properties of null (reading '' @ [CHR 0x27] @ ''items'' @ [CHR 0x27] @ '')''"

subsection \<open>The handlers\<close>

definition addItem ::
  "env \<Rightarrow> oid \<Rightarrow> new_fields \<Rightarrow> upload_result option \<Rightarrow> state \<Rightarrow> response option \<times> state" where
  "addItem E userId f file =
     tryCatch ''add item error ''
       (thenDo (uploadIfFile file) (\<lambda>image.
        thenDo (db E 0 (query (Shop_findOne_owner userId))) (\<lambda>shop.
          case shop of
            None \<Rightarrow> respond 400 (Message ''shop not found'')
          | Some sh \<Rightarrow>
              thenDo (db E 1 (Item_create E f image (shop_id sh))) (\<lambda>item.
              let sh' = sh\<lparr>shop_items := shop_items sh @ [item_id item]\<rparr> in
              thenDo (db E 2 (Shop_save sh')) (\<lambda>_.
              thenDo (db E 3 populate_owner) (\<lambda>_.
              thenDo (db E 4 (query (populate_items (shop_items sh')))) (\<lambda>its.
                respond 201 (ShopBody (Some (populated sh' its))))))))))"

definition editItem ::
  "env \<Rightarrow> oid \<Rightarrow> oid \<Rightarrow> edit_fields \<Rightarrow> upload_result option \<Rightarrow> state \<Rightarrow> response option \<times> state" where
  "editItem E userId itemId f file =
     tryCatch ''edit item error ''
       (thenDo (uploadIfFile file) (\<lambda>image.
        thenDo (db E 0 (Item_findByIdAndUpdate E itemId f image)) (\<lambda>item.
          case item of
            None \<Rightarrow> respond 400 (Message ''item not found'')
          | Some _ \<Rightarrow>
              thenDo (db E 1 (query (\<lambda>s. map_option (\<lambda>sh. populated sh (populate_items (shop_items sh) s))
                                             (Shop_findOne_owner userId s)))) (\<lambda>shop.
                respond 200 (ShopBody shop)))))"

definition getItemById :: "env \<Rightarrow> oid \<Rightarrow> state \<Rightarrow> response option \<times> state" where
  "getItemById E itemId =
     tryCatch ''get item error ''
       (thenDo (db E 0 (query (Item_findById itemId))) (\<lambda>item.
          case item of
            None \<Rightarrow> respond 400 (Message ''item not found'')
          | Some it \<Rightarrow> respond 200 (ItemBody it)))"

definition deleteItem :: "env \<Rightarrow> oid \<Rightarrow> oid \<Rightarrow> state \<Rightarrow> response option \<times> state" where
  "deleteItem E userId itemId =
     tryCatch ''delete item error ''
       (thenDo (db E 0 (Item_findByIdAndDelete itemId)) (\<lambda>item.
          case item of
            None \<Rightarrow> respond 400 (Message ''item not found'')
          | Some it \<Rightarrow>
              let item_oid = \<lparr>ref = 0, hex = item_id it\<rparr> in
              thenDo (db E 1 (query (Shop_findOne_owner userId))) (\<lambda>shop.
                case shop of
                  None \<Rightarrow> throw null_items_error
                | Some sh \<Rightarrow>
                    let kept = filter (\<lambda>i. strict_neq i item_oid) (hydrate_ids 1 (shop_items sh));
                        sh' = sh\<lparr>shop_items := map hex kept\<rparr>
                    in
                    thenDo (db E 2 (Shop_save sh')) (\<lambda>_.
                    thenDo (db E 3 (query (populate_items (shop_items sh')))) (\<lambda>its.
                      respond 200 (ShopBody (Some (populated sh' its))))))))"

text \<open>
  \<^verbatim>\<open>!x\<close> on a request's string: true when it is absent and when it is empty. On a
  number: true when it is absent and when it is \<open>0\<close>.
\<close>

definition truthy :: "string option \<Rightarrow> string option" where
  "truthy x = (case x of None \<Rightarrow> None | Some v \<Rightarrow> if v = [] then None else Some v)"

definition truthyNum :: "rat option \<Rightarrow> rat option" where
  "truthyNum x = (case x of None \<Rightarrow> None | Some v \<Rightarrow> if v = 0 then None else Some v)"

definition cacheLookup :: "env \<Rightarrow> string \<Rightarrow> body option action" where
  "cacheLookup E k s = (Inr (cache_get E k s), s)"

definition city_cacheKey :: "env \<Rightarrow> string \<Rightarrow> string" where
  "city_cacheKey E city = ''items_city_'' @ toLowerCase E city"

definition shop_cacheKey :: "oid \<Rightarrow> string" where
  "shop_cacheKey shopId = ''shop_items_'' @ shopId"

definition search_cacheKey :: "env \<Rightarrow> string \<Rightarrow> string \<Rightarrow> string" where
  "search_cacheKey E city q = ''search_'' @ toLowerCase E city @ ''_'' @ toLowerCase E q"

text \<open>\<^verbatim>\<open>new RegExp(`^${city}$`, "i")\<close>\<close>

definition city_pattern :: "string \<Rightarrow> string" where
  "city_pattern city = CHR ''^'' # city @ ''$''"

definition shopMap_of :: "shop list \<Rightarrow> oid \<rightharpoonup> shop_info" where
  "shopMap_of shops =
     map_of (rev (map (\<lambda>sh. (shop_id sh, \<lparr>info_name = shop_name sh, info_image = shop_image sh\<rparr>)) shops))"

definition attachShopInfo :: "(oid \<rightharpoonup> shop_info) \<Rightarrow> item_proj \<Rightarrow> item_with_shop" where
  "attachShopInfo shopMap it =
     \<lparr>item_id = item_id it, item_name = item_name it, item_category = item_category it,
      item_foodType = item_foodType it, item_price = item_price it, item_image = item_image it,
      item_rating = item_rating it, item_shop = item_shop it,
      shopInfo = shopMap (item_shop it)\<rparr>"

definition getItemByCity :: "env \<Rightarrow> string option \<Rightarrow> state \<Rightarrow> response option \<times> state" where
  "getItemByCity E city =
     tryCatch ''get item by city error ''
       (case truthy city of
          None \<Rightarrow> respond 400 (Message ''city is required'')
        | Some c \<Rightarrow>
            let cacheKey = city_cacheKey E c in
            thenDo (cacheLookup E cacheKey) (\<lambda>cached.
              case cached of
                Some v \<Rightarrow> respond 200 v
              | None \<Rightarrow>
                  thenDo (regex_i E (city_pattern c)) (\<lambda>re.
                  thenDo (db E 0 (query (Shop_find (\<lambda>sh. re (shop_city sh))))) (\<lambda>shops.
                    if shops = [] then respond 404 (Message ''No shops found in this city'')
                    else
                      let shopIds = map shop_id shops in
                      thenDo (db E 1 (query (\<lambda>s. select_item (limit 50 (sortByRatingDesc
                                (Item_find (\<lambda>it. item_shop it \<in> set shopIds) s)))))) (\<lambda>items.
                      let itemsWithShop = map (attachShopInfo (shopMap_of shops)) items in
                      thenDo (cache_set E cacheKey (CityItems itemsWithShop)) (\<lambda>_.
                        respond 200 (CityItems itemsWithShop)))))))"

definition getItemsByShop :: "env \<Rightarrow> oid \<Rightarrow> state \<Rightarrow> response option \<times> state" where
  "getItemsByShop E shopId =
     tryCatch ''get item by shop error ''
       (let cacheKey = shop_cacheKey shopId in
        thenDo (cacheLookup E cacheKey) (\<lambda>cached.
          case cached of
            Some v \<Rightarrow> respond 200 v
          | None \<Rightarrow>
              thenDo (db E 0 (query (\<lambda>s. map_option shop_proj.truncate (Shop_findById shopId s)))) (\<lambda>shop.
              thenDo (db E 1 (query (\<lambda>s. select_item (Item_find (\<lambda>it. item_shop it = shopId) s)))) (\<lambda>items.
                case shop of
                  None \<Rightarrow> respond 404 (Message ''shop not found'')
                | Some sh \<Rightarrow>
                    thenDo (cache_set E cacheKey (ShopItems sh items)) (\<lambda>_.
                      respond 200 (ShopItems sh items))))))"

definition searchItems :: "env \<Rightarrow> string option \<Rightarrow> string option \<Rightarrow> state \<Rightarrow> response option \<times> state" where
  "searchItems E queryParam city =
     tryCatch ''search item  error ''
       (case truthy queryParam of
          None \<Rightarrow> noResponse
        | Some q \<Rightarrow>
           (case truthy city of
              None \<Rightarrow> noResponse
            | Some c \<Rightarrow>
                let cacheKey = search_cacheKey E c q in
                thenDo (cacheLookup E cacheKey) (\<lambda>cached.
                  case cached of
                    Some v \<Rightarrow> respond 200 v
                  | None \<Rightarrow>
                      thenDo (regex_i E (city_pattern c)) (\<lambda>re.
                      thenDo (db E 0 (query (Shop_find (\<lambda>sh. re (shop_city sh))))) (\<lambda>shops.
                        if shops = [] then respond 404 (Message ''shops not found'')
                        else
                          let shopIds = map shop_id shops in
                          thenDo (regex_i E q) (\<lambda>rq.
                          thenDo (db E 1 (query (\<lambda>s. select_item (limit 25 (sortByRatingDesc
                                    (Item_find (\<lambda>it. item_shop it \<in> set shopIds \<and>
                                                      (rq (item_name it) \<or> rq (item_category it))) s)))))) (\<lambda>items.
                          thenDo (cache_set E cacheKey (FoundItems items)) (\<lambda>_.
                            respond 200 (FoundItems items)))))))))"

definition rating :: "env \<Rightarrow> oid option \<Rightarrow> rat option \<Rightarrow> state \<Rightarrow> response option \<times> state" where
  "rating E itemIdParam ratingParam =
     tryCatch ''rating error ''
       (case (truthy itemIdParam, truthyNum ratingParam) of
          (Some itemId, Some r) \<Rightarrow>
            if r < 1 \<or> r > 5 then respond 400 (Message ''rating must be between 1 to 5'')
            else
              thenDo (db E 0 (query (Item_findById itemId))) (\<lambda>item.
                case item of
                  None \<Rightarrow> respond 400 (Message ''item not found'')
                | Some it \<Rightarrow>
                    let newCount = jadd (count (item_rating it)) (Num 1);
                        newAverage =
                          jdiv (jadd (jmul (average (item_rating it)) (count (item_rating it))) (Num r))
                            newCount;
                        it' = it\<lparr>item_rating := \<lparr>average = newAverage, count = newCount\<rparr>\<rparr>
                    in
                    thenDo (db E 1 (Item_save E it')) (\<lambda>saved.
                      respond 200 (RatingBody (item_rating saved))))
        | _ \<Rightarrow> respond 400 (Message ''itemId and rating is required''))"

subsection \<open>What the specification's words mean\<close>

text \<open>"Case-insensitively contains" and "matches case-insensitively (exact string)".\<close>

definition ci_contains :: "env \<Rightarrow> string \<Rightarrow> string \<Rightarrow> bool" where
  "ci_contains E q s = sublist (toLowerCase E q) (toLowerCase E s)"

definition ci_equal :: "env \<Rightarrow> string \<Rightarrow> string \<Rightarrow> bool" where
  "ci_equal E a b = (toLowerCase E a = toLowerCase E b)"

text \<open>Submitting a sequence of ratings for one item, one request after the other.\<close>

fun submitAll :: "env \<Rightarrow> oid \<Rightarrow> rat list \<Rightarrow> state \<Rightarrow> state" where
  "submitAll E itemId [] s = s"
| "submitAll E itemId (r # rs) s = submitAll E itemId rs (snd (rating E (Some itemId) (Some r) s))"

text \<open>
  The two kinds of response: a failure is reported with status 400, 404 or 500 and a JSON
  \<^verbatim>\<open>{ message }\<close>; a success has status 200 or 201.
\<close>

definition is_message :: "body \<Rightarrow> bool" where
  "is_message b = (case b of Message m \<Rightarrow> True | _ \<Rightarrow> False)"

definition failure_response :: "response option \<Rightarrow> bool" where
  "failure_response r =
     (case r of
        None \<Rightarrow> False
      | Some x \<Rightarrow> (status x = 400 \<or> status x = 404 \<or> status x = 500) \<and> is_message (body x))"

definition success_response :: "response option \<Rightarrow> bool" where
  "success_response r =
     (case r of
        None \<Rightarrow> False
      | Some x \<Rightarrow> status x = 200 \<or> status x = 201)"

definition reports :: "bool \<Rightarrow> response option \<Rightarrow> bool" where
  "reports failed r = (if failed then failure_response r else success_response r)"

text \<open>
  The failures of each operation, as conditions on the request, the state and the
  collaborators: an input that is missing or out of range, an entity that is not found,
  an upload that fails, a call of the store that rejects, a pattern that the engine
  rejects, a property read from \<^verbatim>\<open>null\<close>.
\<close>

definition upload_fails :: "upload_result option \<Rightarrow> bool" where
  "upload_fails file = (case file of Some (UploadRejected e) \<Rightarrow> True | _ \<Rightarrow> False)"

definition store_fails :: "env \<Rightarrow> nat list \<Rightarrow> bool" where
  "store_fails E ks = list_ex (\<lambda>k. case db_fault E k of Some e \<Rightarrow> True | None \<Rightarrow> False) ks"

definition pattern_fails :: "env \<Rightarrow> string \<Rightarrow> state \<Rightarrow> bool" where
  "pattern_fails E p s = (case fst (regex_i E p s) of Inl e \<Rightarrow> True | Inr re \<Rightarrow> False)"

definition no_shop_in_city :: "env \<Rightarrow> string \<Rightarrow> state \<Rightarrow> bool" where
  "no_shop_in_city E c s =
     (case fst (regex_i E (city_pattern c) s) of
        Inl e \<Rightarrow> True
      | Inr re \<Rightarrow> Shop_find (\<lambda>sh. re (shop_city sh)) s = [])"

definition addItem_fails :: "env \<Rightarrow> oid \<Rightarrow> upload_result option \<Rightarrow> state \<Rightarrow> bool" where
  "addItem_fails E userId file s =
     (upload_fails file \<or> Shop_findOne_owner userId s = None \<or> store_fails E [0, 1, 2, 3, 4])"

definition editItem_fails :: "env \<Rightarrow> oid \<Rightarrow> upload_result option \<Rightarrow> state \<Rightarrow> bool" where
  "editItem_fails E itemId file s =
     (upload_fails file \<or> Item_findById itemId s = None \<or> store_fails E [0, 1])"

definition getItemById_fails :: "env \<Rightarrow> oid \<Rightarrow> state \<Rightarrow> bool" where
  "getItemById_fails E itemId s = (Item_findById itemId s = None \<or> store_fails E [0])"

definition deleteItem_fails :: "env \<Rightarrow> oid \<Rightarrow> oid \<Rightarrow> state \<Rightarrow> bool" where
  "deleteItem_fails E userId itemId s =
     (Item_findById itemId s = None \<or> Shop_findOne_owner userId s = None
      \<or> store_fails E [0, 1, 2, 3])"

definition getItemByCity_fails :: "env \<Rightarrow> string option \<Rightarrow> state \<Rightarrow> bool" where
  "getItemByCity_fails E city s =
     (case truthy city of
        None \<Rightarrow> True
      | Some c \<Rightarrow>
          (case cache_get E (city_cacheKey E c) s of
             Some v \<Rightarrow> False
           | None \<Rightarrow> no_shop_in_city E c s \<or> store_fails E [0, 1]))"

definition getItemsByShop_fails :: "env \<Rightarrow> oid \<Rightarrow> state \<Rightarrow> bool" where
  "getItemsByShop_fails E shopId s =
     (case cache_get E (shop_cacheKey shopId) s of
        Some v \<Rightarrow> False
      | None \<Rightarrow> Shop_findById shopId s = None \<or> store_fails E [0, 1])"

text \<open>For a search with both parameters.\<close>

definition searchItems_fails :: "env \<Rightarrow> string \<Rightarrow> string \<Rightarrow> state \<Rightarrow> bool" where
  "searchItems_fails E q c s =
     (case cache_get E (search_cacheKey E c q) s of
        Some v \<Rightarrow> False
      | None \<Rightarrow> no_shop_in_city E c s \<or> pattern_fails E q s \<or> store_fails E [0, 1])"

definition rating_fails :: "env \<Rightarrow> oid option \<Rightarrow> rat option \<Rightarrow> state \<Rightarrow> bool" where
  "rating_fails E itemIdParam ratingParam s =
     (case (truthy itemIdParam, truthyNum ratingParam) of
        (Some itemId, Some r) \<Rightarrow>
          r < 1 \<or> 5 < r \<or> Item_findById itemId s = None \<or> store_fails E [0, 1]
      | _ \<Rightarrow> True)"

subsection \<open>A small marketplace\<close>

definition burger :: item where
  "burger = \<lparr>item_id = ''i1'', item_name = ''Cheese Burger'', item_category = ''Fast Food'',
             item_foodType = ''veg'', item_price = 120, item_image = None,
             item_rating = \<lparr>average = Num 0, count = Num 0\<rparr>, item_shop = ''s1'',
             item_updatedAt = 10\<rparr>"

definition pizza :: item where
  "pizza = \<lparr>item_id = ''i2'', item_name = ''Pizza'', item_category = ''Italian'',
            item_foodType = ''veg'', item_price = 250, item_image = Some ''pizza.png'',
            item_rating = \<lparr>average = Num 4, count = Num 2\<rparr>, item_shop = ''s1'',
            item_updatedAt = 20\<rparr>"

definition dosa :: item where
  "dosa = \<lparr>item_id = ''i3'', item_name = ''Dosa'', item_category = ''South Indian'',
           item_foodType = ''veg'', item_price = 80, item_image = None,
           item_rating = \<lparr>average = Num 5, count = Num 1\<rparr>, item_shop = ''s2'',
           item_updatedAt = 30\<rparr>"

definition pune_shop :: shop where
  "pune_shop = \<lparr>shop_id = ''s1'', shop_name = ''Pune Bites'', shop_image = ''pune.png'',
                shop_city = ''Pune'', shop_owner = ''u1'', shop_items = [''i1'', ''i2'']\<rparr>"

definition five_shop :: shop where
  "five_shop = \<lparr>shop_id = ''s2'', shop_name = ''Sector Five'', shop_image = ''five.png'',
                shop_city = ''5'', shop_owner = ''u2'', shop_items = [''i3'']\<rparr>"

definition s0 :: state where
  "s0 = \<lparr>item_coll = [burger, pizza, dosa], shop_coll = [pune_shop, five_shop], cache = Map.empty\<rparr>"

definition E0 :: env where
  "E0 = \<lparr>now = 1000, new_oid = ''i9'', db_fault = (\<lambda>k. None),
         rx_other = (\<lambda>p. Inl ''SyntaxError: Invalid regular expression''),
         rx_wide = (\<lambda>p x. False), lower_other = (\<lambda>x. x)\<rparr>"

text \<open>The state after \<^verbatim>\<open>getItemByCity("Pune")\<close> has answered from \<open>s0\<close> at time \<open>now E0\<close>.\<close>

definition pune_payload :: body where
  "pune_payload = CityItems (map (attachShopInfo (shopMap_of [pune_shop])) (select_item [pizza, burger]))"

definition s1 :: state where
  "s1 = s0\<lparr>cache := [city_cacheKey E0 ''Pune'' \<mapsto> (now E0 + stdTTL * 1000, pune_payload)]\<rparr>"

text \<open>A state whose cache holds live entries of \<^verbatim>\<open>getItemsByShop\<close> and \<^verbatim>\<open>searchItems\<close>.\<close>

definition shop_payload :: body where
  "shop_payload = ShopItems (shop_proj.truncate pune_shop) (select_item [burger, pizza])"

definition search_payload :: body where
  "search_payload = FoundItems (select_item [burger])"

definition s2 :: state where
  "s2 = s0\<lparr>cache := [shop_cacheKey ''s1'' \<mapsto> (now E0 + stdTTL * 1000, shop_payload),
                       search_cacheKey E0 ''Pune'' ''burger'' \<mapsto> (now E0 + stdTTL * 1000, search_payload)]\<rparr>"

section \<open>Properties\<close>

subsection \<open>Evaluating the steps of a handler\<close>

lemmas step_defs = thenDo_def tryCatch_def db_def query_def respond_def noResponse_def throw_def
  cacheLookup_def truthy_def truthyNum_def

lemmas eval_defs = step_defs regex_i_def rx_parse_def rx_test_def city_pattern_def rx_special_def
  backslash_def rx_escape_def rx_cons_def isDigit_def ascii_def toLowerCase_def toLowerChar_def
  Shop_find_def Item_find_def sortByRatingDesc_def limit_def select_item_def
  item_proj.truncate_def shop_proj.truncate_def shopMap_of_def attachShopInfo_def cache_get_def cache_set_def
  city_cacheKey_def shop_cacheKey_def search_cacheKey_def Shop_findById_def Item_findById_def
  s0_def E0_def burger_def pizza_def dosa_def pune_shop_def five_shop_def Let_def

subsection \<open>Rounding to the number format\<close>

lemma expo_search_bounds:
  "pow2 lo \<le> x \<Longrightarrow> x < pow2 (lo + 2 ^ n) \<Longrightarrow>
   pow2 (expo_search n lo x) \<le> x \<and> x < pow2 (expo_search n lo x + 1)"
proof (induction n arbitrary: lo)
  case 0
  then show ?case by simp
next
  case (Suc n)
  show ?case
  proof (cases "pow2 (lo + 2 ^ n) \<le> x")
    case True
    have "x < pow2 (lo + 2 ^ n + 2 ^ n)" using Suc.prems(2) by (simp add: algebra_simps)
    from Suc.IH [OF True this] True show ?thesis by simp
  next
    case False
    then have "x < pow2 (lo + 2 ^ n)" by simp
    from Suc.IH [OF Suc.prems(1) this] False show ?thesis by simp
  qed
qed

lemma pow2_nat: "pow2 (int n) = 2 ^ n"
  by (simp add: pow2_def)

lemma pow2_neg: "pow2 (- int n) = 1 / 2 ^ n"
  by (simp add: pow2_def power_int_minus inverse_eq_divide)

lemma pow2_numeral [simp]:
  "pow2 (numeral k) = 2 ^ numeral k" "pow2 (- numeral k) = 1 / 2 ^ numeral k" "pow2 0 = 1" "pow2 1 = 2"
  using pow2_nat [of "numeral k"] pow2_neg [of "numeral k"] by (simp_all add: pow2_def)

lemma pow2_mono: "a \<le> b \<Longrightarrow> pow2 a \<le> pow2 b"
  by (simp add: pow2_def power_int_increasing)

lemma pow2_unique:
  assumes "pow2 a \<le> x" "x < pow2 (a + 1)" "pow2 b \<le> x" "x < pow2 (b + 1)"
  shows "a = b"
proof (rule ccontr)
  assume "a \<noteq> b"
  then consider "a + 1 \<le> b" | "b + 1 \<le> a" by linarith
  then show False
  proof cases
    case 1
    then have "pow2 (a + 1) \<le> pow2 b" by (rule pow2_mono)
    with assms show False by linarith
  next
    case 2
    then have "pow2 (b + 1) \<le> pow2 a" by (rule pow2_mono)
    with assms show False by linarith
  qed
qed

lemma exponent_eq:
  assumes "pow2 e \<le> x" and "x < pow2 (e + 1)" and "- 1022 \<le> e" and "e \<le> 3000"
  shows "exponent x = e"
proof -
  have lo: "pow2 (- 1022) \<le> x"
    using pow2_mono [OF assms(3)] assms(1) by linarith
  have "pow2 (e + 1) \<le> pow2 (- 1022 + 2 ^ 12)"
    using assms(4) by (intro pow2_mono) simp
  then have hi: "x < pow2 (- 1022 + 2 ^ 12)"
    using assms(2) by linarith
  from expo_search_bounds [OF lo hi]
  have "pow2 (exponent x) \<le> x \<and> x < pow2 (exponent x + 1)"
    by (simp add: exponent_def)
  then show ?thesis
    using pow2_unique [of "exponent x" x e] assms(1,2) by blast
qed

lemma fl_eval:
  assumes "0 < x" and "pow2 e \<le> x" and "x < pow2 (e + 1)" and "- 1022 \<le> e" and "e \<le> 3000"
  shows "fl x =
     (let y = of_int (roundHalfEven (x / pow2 (e - 52))) * pow2 (e - 52)
      in if pow2 1024 \<le> y then PlusInf else Num y)"
  using assms exponent_eq [OF assms(2-5)] by (simp add: fl_def Let_def)

lemma roundHalfEven_int [simp]: "roundHalfEven (of_int k) = k"
  by (simp add: roundHalfEven_def)

lemma fl_nat:
  assumes "n < 2 ^ 53"
  shows "fl (of_nat n) = Num (of_nat n)"
proof (cases "n = 0")
  case True
  then show ?thesis by (simp add: fl_def)
next
  case False
  then have "1 \<le> n" by simp
  with ex_power_ivl1 [of 2 n] obtain e where e: "2 ^ e \<le> n" "n < 2 ^ (e + 1)" by auto
  have "e < 53"
  proof (rule ccontr)
    assume "\<not> e < 53"
    then have "(2::nat) ^ 53 \<le> 2 ^ e" by (intro power_increasing) simp_all
    with e(1) assms show False by linarith
  qed
  let ?x = "of_nat n :: rat"
  have b1: "pow2 (int e) \<le> ?x"
  proof -
    have "(of_nat (2 ^ e) :: rat) \<le> of_nat n" using e(1) by (simp only: of_nat_le_iff)
    then show ?thesis by (simp add: pow2_nat)
  qed
  have b2: "?x < pow2 (int e + 1)"
  proof -
    have "?x < of_nat (2 ^ (e + 1))" using e(2) by (simp only: of_nat_less_iff)
    moreover have "pow2 (int e + 1) = 2 ^ (e + 1)" using pow2_nat [of "e + 1"] by (simp add: add.commute)
    ultimately show ?thesis by simp
  qed
  have q: "pow2 (int e - 52) = 1 / 2 ^ (52 - e)"
  proof -
    have "int e - 52 = - int (52 - e)" using \<open>e < 53\<close> by simp
    then show ?thesis by (simp only: pow2_neg)
  qed
  have m: "?x / pow2 (int e - 52) = of_int (int n * 2 ^ (52 - e))"
    by (simp add: q)
  have y: "of_int (roundHalfEven (?x / pow2 (int e - 52))) * pow2 (int e - 52) = ?x"
    unfolding m roundHalfEven_int by (simp add: q)
  have small: "\<not> pow2 1024 \<le> ?x"
  proof -
    have "?x < of_nat (2 ^ 53)" using assms by (simp only: of_nat_less_iff)
    also have "\<dots> \<le> pow2 1024" by simp
    finally show ?thesis by simp
  qed
  have "0 < ?x" using False by simp
  from fl_eval [OF this b1 b2] \<open>e < 53\<close> have
    "fl ?x = (if pow2 1024 \<le> ?x then PlusInf else Num ?x)"
    unfolding Let_def y by simp
  then show ?thesis using small by (simp only: if_False)
qed

lemma roundHalfEven_down:
  assumes "of_int f \<le> m" and "m - of_int f < 1 / 2"
  shows "roundHalfEven m = f"
proof -
  have "\<lfloor>m\<rfloor> = f" using assms by (intro floor_unique) linarith+
  then show ?thesis using assms(2) by (simp add: roundHalfEven_def)
qed

lemma fl_13_3: "fl (13 / 3) = Num (4878899596318037 / 1125899906842624)"
proof -
  have q: "pow2 (2 - 52) = 1 / 1125899906842624"
    by simp
  have r: "roundHalfEven (13 / 3 / (1 / 1125899906842624)) = 4878899596318037"
    by (rule roundHalfEven_down) simp_all
  have "fl (13 / 3) = (let y = of_int (roundHalfEven ((13/3) / pow2 (2 - 52))) * pow2 (2 - 52)
      in if pow2 1024 \<le> y then PlusInf else Num y)"
    by (rule fl_eval) simp_all
  then show ?thesis
    unfolding q r by simp
qed

lemma fl_9_2: "fl (9 / 2) = Num (9 / 2)"
proof -
  have q: "pow2 (2 - 52) = 1 / 1125899906842624"
    by simp
  have r: "roundHalfEven (9 / 2 / (1 / 1125899906842624)) = 5066549580791808"
    by (rule roundHalfEven_down) simp_all
  have "fl (9 / 2) = (let y = of_int (roundHalfEven ((9/2) / pow2 (2 - 52))) * pow2 (2 - 52)
      in if pow2 1024 \<le> y then PlusInf else Num y)"
    by (rule fl_eval) simp_all
  then show ?thesis
    unfolding q r by simp
qed

lemma fl_small [simp]:
  "fl 0 = Num 0" "fl 1 = Num 1"
  "numeral k < (2::nat) ^ 53 \<Longrightarrow> fl (numeral k) = Num (numeral k)"
  using fl_nat [of 0] fl_nat [of 1] fl_nat [of "numeral k"] by simp_all

subsection \<open>The running average of \<^verbatim>\<open>rating\<close>\<close>

lemma find_map_replace:
  "item_id y = i \<Longrightarrow>
   find (\<lambda>it. item_id it = i) (map (\<lambda>x. if item_id x = i then y else x) xs) =
     (case find (\<lambda>it. item_id it = i) xs of None \<Rightarrow> None | Some _ \<Rightarrow> Some y)"
  by (induction xs) auto

lemma rating_step:
  assumes "itemId \<noteq> []" and "Item_findById itemId s = Some it" and "1 \<le> r" and "r \<le> 5"
    and "db_fault E 0 = None" and "db_fault E 1 = None"
  shows "rating E (Some itemId) (Some r) s =
     (let new = \<lparr>average = jdiv (jadd (jmul (average (item_rating it)) (count (item_rating it))) (Num r))
                              (jadd (count (item_rating it)) (Num 1)),
                  count = jadd (count (item_rating it)) (Num 1)\<rparr>
      in (Some \<lparr>status = 200, body = RatingBody new\<rparr>,
          s\<lparr>item_coll := map (\<lambda>x. if item_id x = item_id it
                                     then it\<lparr>item_rating := new, item_updatedAt := now E\<rparr> else x)
                               (item_coll s)\<rparr>))"
  using assms by (simp add: rating_def step_defs Item_save_def Let_def)

lemma findById_id: "Item_findById i s = Some it \<Longrightarrow> item_id it = i"
  by (auto simp: Item_findById_def find_Some_iff)

lemma rating_step_find:
  assumes "itemId \<noteq> []" and "Item_findById itemId s = Some it" and "1 \<le> r" and "r \<le> 5"
    and "db_fault E 0 = None" and "db_fault E 1 = None"
  shows "Item_findById itemId (snd (rating E (Some itemId) (Some r) s)) =
     Some (it\<lparr>item_rating :=
                 \<lparr>average = jdiv (jadd (jmul (average (item_rating it)) (count (item_rating it))) (Num r))
                              (jadd (count (item_rating it)) (Num 1)),
                  count = jadd (count (item_rating it)) (Num 1)\<rparr>, item_updatedAt := now E\<rparr>)"
  using assms findById_id[OF assms(2)]
  by (simp add: rating_step Let_def Item_findById_def find_map_replace)

lemma count_plus_one:
  assumes "n + 1 < 2 ^ 53"
  shows "jadd (Num (of_nat n)) (Num 1) = Num (of_nat (n + 1))"
  using fl_nat [OF assms] by (simp add: add.commute)

text \<open>
  C1. For an existing item and a rating value in \<open>[1, 5]\<close> (and a store that answers),
  \<^verbatim>\<open>rating\<close> sets \<open>newCount = oldCount + 1\<close> and
  \<open>newAverage = (oldAverage * oldCount + ratingValue) / newCount\<close>, each operation being
  the one of the number format (\<open>jadd\<close>, \<open>jmul\<close>, \<open>jdiv\<close>), writes both with one update
  of that item and leaves every other document as it is, and answers 200 with the updated
  \<open>{average, count}\<close>. For a count that is an integer below \<open>2 ^ 53 - 1\<close> the new count
  is that integer plus one, exactly. Starting from count 0, the ratings 5, 3, 4 in this
  order leave count 3 and average exactly 4.
\<close>

theorem rating_running_average:
  assumes "itemId \<noteq> []" and "Item_findById itemId s = Some it" and "1 \<le> r" and "r \<le> 5"
    and "db_fault E 0 = None" and "db_fault E 1 = None"
  shows "rating E (Some itemId) (Some r) s =
     (let newCount = jadd (count (item_rating it)) (Num 1);
          newAverage = jdiv (jadd (jmul (average (item_rating it)) (count (item_rating it))) (Num r))
                         newCount;
          new = \<lparr>average = newAverage, count = newCount\<rparr>
      in (Some \<lparr>status = 200, body = RatingBody new\<rparr>,
          s\<lparr>item_coll := map (\<lambda>x. if item_id x = item_id it
                                     then it\<lparr>item_rating := new, item_updatedAt := now E\<rparr> else x)
                               (item_coll s)\<rparr>))
     \<and> (\<forall>n. count (item_rating it) = Num (of_nat n) \<and> n + 1 < 2 ^ 53 \<longrightarrow>
          jadd (count (item_rating it)) (Num 1) = Num (of_nat (n + 1)))
     \<and> (\<forall>a. average (item_rating it) = Num a \<and> count (item_rating it) = Num 0 \<longrightarrow>
          map_option item_rating (Item_findById itemId (submitAll E itemId [5, 3, 4] s))
            = Some \<lparr>average = Num 4, count = Num 3\<rparr>)"
proof -
  have one: "rating E (Some itemId) (Some r) s =
     (let newCount = jadd (count (item_rating it)) (Num 1);
          newAverage = jdiv (jadd (jmul (average (item_rating it)) (count (item_rating it))) (Num r))
                         newCount;
          new = \<lparr>average = newAverage, count = newCount\<rparr>
      in (Some \<lparr>status = 200, body = RatingBody new\<rparr>,
          s\<lparr>item_coll := map (\<lambda>x. if item_id x = item_id it
                                     then it\<lparr>item_rating := new, item_updatedAt := now E\<rparr> else x)
                               (item_coll s)\<rparr>))"
    using rating_step [OF assms] by (simp add: Let_def)
  have cnt: "jadd (count (item_rating it)) (Num 1) = Num (of_nat (n + 1))"
    if "count (item_rating it) = Num (of_nat n) \<and> n + 1 < 2 ^ 53" for n
    using that count_plus_one [of n] by simp
  have seq: "map_option item_rating (Item_findById itemId (submitAll E itemId [5, 3, 4] s))
            = Some \<lparr>average = Num 4, count = Num 3\<rparr>"
    if start: "average (item_rating it) = Num a \<and> count (item_rating it) = Num 0" for a
  proof -
    let ?s1 = "snd (rating E (Some itemId) (Some 5) s)"
    let ?s2 = "snd (rating E (Some itemId) (Some 3) ?s1)"
    let ?s3 = "snd (rating E (Some itemId) (Some 4) ?s2)"
    have f1: "Item_findById itemId ?s1 =
        Some (it\<lparr>item_rating := \<lparr>average = Num 5, count = Num 1\<rparr>, item_updatedAt := now E\<rparr>)"
      using rating_step_find [OF assms(1,2) _ _ assms(5,6), of 5] start by simp
    have f2: "Item_findById itemId ?s2 =
        Some (it\<lparr>item_rating := \<lparr>average = Num 4, count = Num 2\<rparr>, item_updatedAt := now E\<rparr>)"
      using rating_step_find [OF assms(1) f1 _ _ assms(5,6), of 3] by simp
    have f3: "Item_findById itemId ?s3 =
        Some (it\<lparr>item_rating := \<lparr>average = Num 4, count = Num 3\<rparr>, item_updatedAt := now E\<rparr>)"
      using rating_step_find [OF assms(1) f2 _ _ assms(5,6), of 4] by simp
    show ?thesis using f3 by simp
  qed
  show ?thesis using one cnt seq by blast
qed

theorem rating_running_average_witness:
  "''i1'' \<noteq> [] \<and> Item_findById ''i1'' s0 = Some burger \<and> (1::rat) \<le> 5 \<and> (5::rat) \<le> 5 \<and>
   db_fault E0 0 = None \<and> db_fault E0 1 = None \<and>
   average (item_rating burger) = Num 0 \<and> count (item_rating burger) = Num (of_nat 0) \<and>
   (0::nat) + 1 < 2 ^ 53 \<and>
   fst (rating E0 (Some ''i1'') (Some 5) s0) =
     Some \<lparr>status = 200, body = RatingBody \<lparr>average = Num 5, count = Num 1\<rparr>\<rparr> \<and>
   jadd (count (item_rating burger)) (Num 1) = Num (of_nat (0 + 1)) \<and>
   map_option item_rating (Item_findById ''i1'' (submitAll E0 ''i1'' [5, 3, 4] s0))
     = Some \<lparr>average = Num 4, count = Num 3\<rparr>"
proof -
  have n: "''i1'' \<noteq> []" by simp
  have h: "Item_findById ''i1'' s0 = Some burger"
    by (simp add: Item_findById_def s0_def burger_def)
  have d: "db_fault E0 0 = None" "db_fault E0 1 = None"
    by (simp_all add: E0_def)
  have z: "average (item_rating burger) = Num 0" "count (item_rating burger) = Num (of_nat 0)"
    by (simp_all add: burger_def)
  have z': "count (item_rating burger) = Num 0" using z(2) by simp
  have r: "(1::rat) \<le> 5" "(5::rat) \<le> 5" by simp_all
  have small: "(0::nat) + 1 < 2 ^ 53" by simp
  note inst = rating_running_average [OF n h r d]
  have a: "fst (rating E0 (Some ''i1'') (Some 5) s0) =
     Some \<lparr>status = 200, body = RatingBody \<lparr>average = Num 5, count = Num 1\<rparr>\<rparr>"
    using inst [THEN conjunct1] z(1) z' by (simp add: Let_def)
  have b: "jadd (count (item_rating burger)) (Num 1) = Num (of_nat (0 + 1))"
    using inst [THEN conjunct2, THEN conjunct1] z(2) small by blast
  have c: "map_option item_rating (Item_findById ''i1'' (submitAll E0 ''i1'' [5, 3, 4] s0))
     = Some \<lparr>average = Num 4, count = Num 3\<rparr>"
    using inst [THEN conjunct2, THEN conjunct2] z(1) z' by blast
  show ?thesis
    by (intro conjI n h r d z small a b c)
qed

text \<open>
  The average is the rounded one: after 5, 4, 4 it is \<open>4878899596318037 / 2 ^ 50\<close>
  (printed \<^verbatim>\<open>4.333333333333333\<close>), not \<open>13 / 3\<close>.
\<close>

lemma rating_5_4_4_rounds:
  assumes "itemId \<noteq> []" and "Item_findById itemId s = Some it"
    and "db_fault E 0 = None" and "db_fault E 1 = None"
    and "average (item_rating it) = Num a" and "count (item_rating it) = Num 0"
  shows "map_option item_rating (Item_findById itemId (submitAll E itemId [5, 4, 4] s))
            = Some \<lparr>average = Num (4878899596318037 / 1125899906842624), count = Num 3\<rparr>"
proof -
  let ?s1 = "snd (rating E (Some itemId) (Some 5) s)"
  let ?s2 = "snd (rating E (Some itemId) (Some 4) ?s1)"
  let ?s3 = "snd (rating E (Some itemId) (Some 4) ?s2)"
  have f1: "Item_findById itemId ?s1 =
      Some (it\<lparr>item_rating := \<lparr>average = Num 5, count = Num 1\<rparr>, item_updatedAt := now E\<rparr>)"
    using rating_step_find [OF assms(1,2) _ _ assms(3,4), of 5] assms(5,6) by simp
  have f2: "Item_findById itemId ?s2 =
      Some (it\<lparr>item_rating := \<lparr>average = Num (9 / 2), count = Num 2\<rparr>, item_updatedAt := now E\<rparr>)"
    using rating_step_find [OF assms(1) f1 _ _ assms(3,4), of 4] by (simp add: fl_9_2)
  have f3: "Item_findById itemId ?s3 =
      Some (it\<lparr>item_rating := \<lparr>average = Num (4878899596318037 / 1125899906842624), count = Num 3\<rparr>,
               item_updatedAt := now E\<rparr>)"
    using rating_step_find [OF assms(1) f2 _ _ assms(3,4), of 4] by (simp add: fl_13_3)
  show ?thesis using f3 by simp
qed

text \<open>
  C7. \<^verbatim>\<open>rating\<close> answers 400 with a message for every rating value below 1 or above 5
  (for 0 and, with an item id, for 6 in particular) and for every request without an item
  id, and leaves the state as it was.
\<close>

theorem rating_rejects_invalid:
  "(r < 1 \<or> 5 < r \<longrightarrow>
      (\<exists>m. rating E itemId (Some r) s = (Some \<lparr>status = 400, body = Message m\<rparr>, s)))
   \<and> (itemId = None \<or> itemId = Some [] \<longrightarrow>
      rating E itemId ratingParam s =
        (Some \<lparr>status = 400, body = Message ''itemId and rating is required''\<rparr>, s))
   \<and> rating E itemId (Some 0) s =
        (Some \<lparr>status = 400, body = Message ''itemId and rating is required''\<rparr>, s)
   \<and> (itemId \<noteq> None \<and> itemId \<noteq> Some [] \<longrightarrow>
      rating E itemId (Some 6) s =
        (Some \<lparr>status = 400, body = Message ''rating must be between 1 to 5''\<rparr>, s))"
  by (auto simp: rating_def step_defs split: option.splits)

theorem rating_rejects_invalid_witness:
  "rating E0 (Some ''i1'') (Some 6) s0 =
      (Some \<lparr>status = 400, body = Message ''rating must be between 1 to 5''\<rparr>, s0)
   \<and> rating E0 (Some ''i1'') (Some 0) s0 =
      (Some \<lparr>status = 400, body = Message ''itemId and rating is required''\<rparr>, s0)
   \<and> rating E0 None (Some 5) s0 =
      (Some \<lparr>status = 400, body = Message ''itemId and rating is required''\<rparr>, s0)
   \<and> (\<exists>m. rating E0 (Some ''i1'') (Some (-2)) s0 = (Some \<lparr>status = 400, body = Message m\<rparr>, s0))"
  using rating_rejects_invalid [of 6 E0 "Some ''i1''" s0 "Some 5"]
    rating_rejects_invalid [of "-2" E0 "Some ''i1''" s0 "Some 5"]
    rating_rejects_invalid [of 6 E0 None s0 "Some 5"]
  by simp

subsection \<open>A failed upload\<close>

text \<open>
  C5. When the upload of the image fails, \<^verbatim>\<open>addItem\<close> answers 500 and the state is the
  one before the call: no item is created and no id is appended to a shop.
\<close>

theorem addItem_upload_failure:
  "addItem E userId f (Some (UploadRejected e)) s =
     (Some \<lparr>status = 500, body = Message (''add item error '' @ e)\<rparr>, s)"
  by (simp add: addItem_def step_defs uploadIfFile_def uploadOnCloudinary_def)

theorem addItem_upload_failure_witness:
  "addItem E0 ''u1'' \<lparr>new_name = ''Vada Pav'', new_category = ''Snacks'', new_foodType = ''veg'',
       new_price = 30\<rparr> (Some (UploadRejected ''timeout'')) s0 =
     (Some \<lparr>status = 500, body = Message ''add item error timeout''\<rparr>, s0)"
  using addItem_upload_failure [of E0 "''u1''" _ "''timeout''" s0] by simp

subsection \<open>Deleting an item\<close>

text \<open>
  C10. When \<^verbatim>\<open>deleteItem\<close> is called for an existing item by a requester who owns no
  shop (and the store answers), the item is deleted and the handler answers 500 with the
  error of reading \<^verbatim>\<open>items\<close> of \<^verbatim>\<open>null\<close>: the state has changed although the request
  failed.
\<close>

theorem deleteItem_without_shop:
  assumes "Item_findById itemId s = Some it" and "Shop_findOne_owner userId s = None"
    and "db_fault E 0 = None" and "db_fault E 1 = None"
  shows "deleteItem E userId itemId s =
     (Some \<lparr>status = 500, body = Message (''delete item error '' @ null_items_error)\<rparr>,
      s\<lparr>item_coll := filter (\<lambda>x. item_id x \<noteq> itemId) (item_coll s)\<rparr>)
     \<and> Item_findById itemId (snd (deleteItem E userId itemId s)) = None"
proof -
  have gone: "find (\<lambda>it. item_id it = itemId) (filter (\<lambda>x. item_id x \<noteq> itemId) xs) = None" for xs
    by (induction xs) auto
  show ?thesis
    using assms
    by (simp add: deleteItem_def step_defs Item_findByIdAndDelete_def Shop_findOne_owner_def
        Item_findById_def gone)
qed

theorem deleteItem_without_shop_witness:
  "Item_findById ''i1'' s0 = Some burger \<and> Shop_findOne_owner ''u9'' s0 = None \<and>
   db_fault E0 0 = None \<and> db_fault E0 1 = None \<and>
   deleteItem E0 ''u9'' ''i1'' s0 =
     (Some \<lparr>status = 500, body = Message (''delete item error '' @ null_items_error)\<rparr>,
      s0\<lparr>item_coll := [pizza, dosa]\<rparr>)
   \<and> Item_findById ''i1'' (snd (deleteItem E0 ''u9'' ''i1'' s0)) = None"
proof -
  have h: "Item_findById ''i1'' s0 = Some burger"
    by (simp add: Item_findById_def s0_def burger_def)
  have o: "Shop_findOne_owner ''u9'' s0 = None"
    by (simp add: Shop_findOne_owner_def s0_def pune_shop_def five_shop_def)
  have d: "db_fault E0 0 = None" "db_fault E0 1 = None"
    by (simp_all add: E0_def)
  have f: "filter (\<lambda>x. item_id x \<noteq> ''i1'') (item_coll s0) = [pizza, dosa]"
    by (simp add: s0_def burger_def pizza_def dosa_def)
  note inst = deleteItem_without_shop [OF h o d]
  have a: "deleteItem E0 ''u9'' ''i1'' s0 =
     (Some \<lparr>status = 500, body = Message (''delete item error '' @ null_items_error)\<rparr>,
      s0\<lparr>item_coll := [pizza, dosa]\<rparr>)"
    using inst [THEN conjunct1] f by simp
  show ?thesis
    using h o d a inst [THEN conjunct2] by blast
qed

lemma map_hex_hydrate: "map hex (hydrate_ids n ids) = ids"
proof -
  have "map hex (hydrate_ids n ids) = map snd (zip [n ..< n + length ids] ids)"
    by (simp add: hydrate_ids_def split_def comp_def)
  also have "\<dots> = ids"
    by (simp add: map_snd_zip)
  finally show ?thesis .
qed

lemma ref_hydrate: "i \<in> set (hydrate_ids n ids) \<Longrightarrow> n \<le> ref i"
  by (auto simp: hydrate_ids_def dest!: set_zip_leftD)

lemma strict_filter_keeps_all:
  "0 < n \<Longrightarrow> filter (\<lambda>i. strict_neq i \<lparr>ref = 0, hex = h\<rparr>) (hydrate_ids n ids) = hydrate_ids n ids"
  by (rule filter_True) (auto simp: strict_neq_def dest: ref_hydrate)

text \<open>Whoever owns a shop: the list that \<^verbatim>\<open>deleteItem\<close> saves is the list it has read.\<close>

lemma deleteItem_saves_list_as_read:
  assumes "Item_findById itemId s = Some it" and "Shop_findOne_owner userId s = Some sh"
    and "db_fault E 0 = None" and "db_fault E 1 = None" and "db_fault E 2 = None"
  shows "shop_coll (snd (deleteItem E userId itemId s)) =
     map (\<lambda>x. if shop_id x = shop_id sh then sh else x) (shop_coll s)"
  using assms
  by (simp add: deleteItem_def step_defs Item_findByIdAndDelete_def Shop_findOne_owner_def
      Shop_save_def Let_def strict_filter_keeps_all map_hex_hydrate split: option.splits)

text \<open>
  C2, on the code: the owner \<open>u1\<close> deletes the item \<open>i1\<close> of their shop. The item leaves
  the store, and the answer lists the remaining item, but the shop is saved with the
  list of ids it had: \<open>i1\<close> is still in \<^verbatim>\<open>shop.items\<close>. The filter
  \<^verbatim>\<open>(i) => i !== item._id\<close> compares references, and keeps every element.
\<close>

theorem deleteItem_keeps_id_in_shop:
  "deleteItem E0 ''u1'' ''i1'' s0 =
     (Some \<lparr>status = 200, body = ShopBody (Some (populated pune_shop [pizza]))\<rparr>,
      s0\<lparr>item_coll := [pizza, dosa]\<rparr>)
   \<and> Item_findById ''i1'' (snd (deleteItem E0 ''u1'' ''i1'' s0)) = None
   \<and> map_option shop_items (Shop_findById ''s1'' (snd (deleteItem E0 ''u1'' ''i1'' s0)))
       = Some [''i1'', ''i2'']"
  by (simp add: deleteItem_def step_defs Item_findByIdAndDelete_def Shop_findOne_owner_def
        Item_findById_def Shop_findById_def Shop_save_def populate_items_def populated_def
        Let_def strict_filter_keeps_all map_hex_hydrate
        s0_def E0_def burger_def pizza_def dosa_def pune_shop_def five_shop_def)

subsection \<open>What the readers store in the cache\<close>

lemma city_reader:
  "(cache (snd (getItemByCity E city s)) = cache s
      \<or> (\<exists>c v. truthy city = Some c \<and> fst (getItemByCity E city s) = Some \<lparr>status = 200, body = v\<rparr>
            \<and> cache (snd (getItemByCity E city s)) =
               (cache s)(city_cacheKey E c \<mapsto> (now E + stdTTL * 1000, v))))
  \<and> (\<forall>c v. truthy city = Some c \<and> cache_get E (city_cacheKey E c) s = Some v \<longrightarrow>
        getItemByCity E city s = (Some \<lparr>status = 200, body = v\<rparr>, s))"
  by (auto simp: getItemByCity_def step_defs cache_set_def regex_i_def Let_def
        split: option.splits sum.splits prod.splits if_splits)

lemma shop_reader:
  "(cache (snd (getItemsByShop E shopId s)) = cache s
      \<or> (\<exists>v. fst (getItemsByShop E shopId s) = Some \<lparr>status = 200, body = v\<rparr>
            \<and> cache (snd (getItemsByShop E shopId s)) =
               (cache s)(shop_cacheKey shopId \<mapsto> (now E + stdTTL * 1000, v))))
  \<and> (\<forall>v. cache_get E (shop_cacheKey shopId) s = Some v \<longrightarrow>
        getItemsByShop E shopId s = (Some \<lparr>status = 200, body = v\<rparr>, s))"
  by (auto simp: getItemsByShop_def step_defs cache_set_def Let_def
        split: option.splits sum.splits prod.splits if_splits)

lemma search_reader:
  "(cache (snd (searchItems E queryParam city s)) = cache s
      \<or> (\<exists>q c v. truthy queryParam = Some q \<and> truthy city = Some c
            \<and> fst (searchItems E queryParam city s) = Some \<lparr>status = 200, body = v\<rparr>
            \<and> cache (snd (searchItems E queryParam city s)) =
               (cache s)(search_cacheKey E c q \<mapsto> (now E + stdTTL * 1000, v))))
  \<and> (\<forall>q c v. truthy queryParam = Some q \<and> truthy city = Some c
          \<and> cache_get E (search_cacheKey E c q) s = Some v \<longrightarrow>
        searchItems E queryParam city s = (Some \<lparr>status = 200, body = v\<rparr>, s))"
  by (auto simp: searchItems_def step_defs cache_set_def regex_i_def Let_def
        split: option.splits sum.splits prod.splits if_splits)

text \<open>
  C9. Each of \<^verbatim>\<open>getItemByCity\<close>, \<^verbatim>\<open>getItemsByShop\<close> and \<^verbatim>\<open>searchItems\<close> either
  leaves the cache as it was, or answers 200 and stores exactly the body of this answer
  under its cache key: a 400, 404 or 500 outcome stores nothing. On a hit the handler
  answers 200 with the stored payload and changes nothing.
\<close>

theorem readers_cache_only_success:
  "(cache (snd (getItemByCity E city s)) = cache s
      \<or> (\<exists>c v. truthy city = Some c \<and> fst (getItemByCity E city s) = Some \<lparr>status = 200, body = v\<rparr>
            \<and> cache (snd (getItemByCity E city s)) =
               (cache s)(city_cacheKey E c \<mapsto> (now E + stdTTL * 1000, v))))
  \<and> (\<forall>c v. truthy city = Some c \<and> cache_get E (city_cacheKey E c) s = Some v \<longrightarrow>
        getItemByCity E city s = (Some \<lparr>status = 200, body = v\<rparr>, s))
  \<and> (cache (snd (getItemsByShop E shopId s)) = cache s
      \<or> (\<exists>v. fst (getItemsByShop E shopId s) = Some \<lparr>status = 200, body = v\<rparr>
            \<and> cache (snd (getItemsByShop E shopId s)) =
               (cache s)(shop_cacheKey shopId \<mapsto> (now E + stdTTL * 1000, v))))
  \<and> (\<forall>v. cache_get E (shop_cacheKey shopId) s = Some v \<longrightarrow>
        getItemsByShop E shopId s = (Some \<lparr>status = 200, body = v\<rparr>, s))
  \<and> (cache (snd (searchItems E queryParam city s)) = cache s
      \<or> (\<exists>q c v. truthy queryParam = Some q \<and> truthy city = Some c
            \<and> fst (searchItems E queryParam city s) = Some \<lparr>status = 200, body = v\<rparr>
            \<and> cache (snd (searchItems E queryParam city s)) =
               (cache s)(search_cacheKey E c q \<mapsto> (now E + stdTTL * 1000, v))))
  \<and> (\<forall>q c v. truthy queryParam = Some q \<and> truthy city = Some c
          \<and> cache_get E (search_cacheKey E c q) s = Some v \<longrightarrow>
        searchItems E queryParam city s = (Some \<lparr>status = 200, body = v\<rparr>, s))"
  using city_reader [of E city s] shop_reader [of E shopId s] search_reader [of E queryParam city s]
  by blast

lemma s1_reached: "getItemByCity E0 (Some ''Pune'') s0 = (Some \<lparr>status = 200, body = pune_payload\<rparr>, s1)"
  by (simp add: getItemByCity_def eval_defs s1_def pune_payload_def)

lemma s1_lookup: "cache_get E0 (city_cacheKey E0 ''Pune'') s1 = Some pune_payload"
  by (simp add: cache_get_def s1_def E0_def)

theorem readers_cache_only_success_witness:
  "fst (getItemByCity E0 (Some ''Goa'') s0) = Some \<lparr>status = 404, body = Message ''No shops found in this city''\<rparr>
   \<and> cache (snd (getItemByCity E0 (Some ''Goa'') s0)) = cache s0
   \<and> fst (getItemByCity E0 (Some ''(Pune'') s0) =
        Some \<lparr>status = 500, body = Message ''get item by city error SyntaxError: Invalid regular expression''\<rparr>
   \<and> cache (snd (getItemByCity E0 (Some ''(Pune'') s0)) = cache s0
   \<and> truthy (Some ''Pune'') = Some ''Pune''
   \<and> cache_get E0 (city_cacheKey E0 ''Pune'') s1 = Some pune_payload
   \<and> getItemByCity E0 (Some ''Pune'') s1 = (Some \<lparr>status = 200, body = pune_payload\<rparr>, s1)
   \<and> cache_get E0 (shop_cacheKey ''s1'') s2 = Some shop_payload
   \<and> getItemsByShop E0 ''s1'' s2 = (Some \<lparr>status = 200, body = shop_payload\<rparr>, s2)
   \<and> truthy (Some ''burger'') = Some ''burger''
   \<and> cache_get E0 (search_cacheKey E0 ''Pune'' ''burger'') s2 = Some search_payload
   \<and> searchItems E0 (Some ''burger'') (Some ''Pune'') s2 = (Some \<lparr>status = 200, body = search_payload\<rparr>, s2)"
proof -
  have a: "fst (getItemByCity E0 (Some ''Goa'') s0) =
      Some \<lparr>status = 404, body = Message ''No shops found in this city''\<rparr>"
    by (simp add: getItemByCity_def eval_defs)
  have b: "fst (getItemByCity E0 (Some ''(Pune'') s0) =
        Some \<lparr>status = 500, body = Message ''get item by city error SyntaxError: Invalid regular expression''\<rparr>"
    by (simp add: getItemByCity_def eval_defs)
  have a': "cache (snd (getItemByCity E0 (Some ''Goa'') s0)) = cache s0"
    using readers_cache_only_success [of E0 "Some ''Goa''" s0] a by auto
  have b': "cache (snd (getItemByCity E0 (Some ''(Pune'') s0)) = cache s0"
    using readers_cache_only_success [of E0 "Some ''(Pune''" s0] b by auto
  have t: "truthy (Some ''Pune'') = Some ''Pune''"
    by (simp add: truthy_def)
  have h: "getItemByCity E0 (Some ''Pune'') s1 = (Some \<lparr>status = 200, body = pune_payload\<rparr>, s1)"
    using readers_cache_only_success [of E0 "Some ''Pune''" s1] t s1_lookup by blast
  have k: "shop_cacheKey ''s1'' \<noteq> search_cacheKey E0 ''Pune'' ''burger''"
    by (simp add: shop_cacheKey_def search_cacheKey_def)
  have l2: "cache_get E0 (shop_cacheKey ''s1'') s2 = Some shop_payload"
    using k by (simp add: cache_get_def s2_def)
  have l3: "cache_get E0 (search_cacheKey E0 ''Pune'' ''burger'') s2 = Some search_payload"
    by (simp add: cache_get_def s2_def)
  have t': "truthy (Some ''burger'') = Some ''burger''"
    by (simp add: truthy_def)
  have h2: "getItemsByShop E0 ''s1'' s2 = (Some \<lparr>status = 200, body = shop_payload\<rparr>, s2)"
    using readers_cache_only_success [of E0 _ s2 "''s1''"] l2 by blast
  have h3: "searchItems E0 (Some ''burger'') (Some ''Pune'') s2 =
      (Some \<lparr>status = 200, body = search_payload\<rparr>, s2)"
    using readers_cache_only_success [of E0 "Some ''Pune''" s2 _ "Some ''burger''"] t t' l3 by blast
  show ?thesis
    by (intro conjI a a' b b' t s1_lookup h l2 h2 t' l3 h3)
qed

subsection \<open>Mutations leave the cache alone\<close>

lemma keep_thenDo:
  assumes "\<And>s. cache (snd (m s)) = cache s" and "\<And>x s. cache (snd (f x s)) = cache s"
  shows "cache (snd (thenDo m f s)) = cache s"
proof (cases "m s")
  case (Pair r s')
  then have "cache s' = cache s" using assms(1) [of s] by simp
  then show ?thesis using Pair assms(2) by (cases r) (simp_all add: thenDo_def)
qed

lemma keep_tryCatch:
  assumes "\<And>s. cache (snd (m s)) = cache s"
  shows "cache (snd (tryCatch pre m s)) = cache s"
proof (cases "m s")
  case (Pair r s')
  then have "cache s' = cache s" using assms [of s] by simp
  then show ?thesis using Pair by (cases r) (simp_all add: tryCatch_def)
qed

lemma keep_db:
  assumes "\<And>s. cache (snd (op s)) = cache s"
  shows "cache (snd (db E k op s)) = cache s"
  using assms [of s] by (cases "op s") (simp add: db_def split: option.splits)

lemma keep_simple:
  "cache (snd (respond st b s)) = cache s"
  "cache (snd (throw e s)) = cache s"
  "cache (snd (noResponse s)) = cache s"
  "cache (snd (query q s)) = cache s"
  "cache (snd (uploadIfFile file s)) = cache s"
  "cache (snd (regex_i E p s)) = cache s"
  "cache (snd (cacheLookup E k s)) = cache s"
  "cache (snd (Item_create E nf img sid s)) = cache s"
  "cache (snd (Shop_save sh s)) = cache s"
  "cache (snd (populate_owner s)) = cache s"
  "cache (snd (Item_findByIdAndUpdate E iid ef img s)) = cache s"
  "cache (snd (Item_findByIdAndDelete iid s)) = cache s"
  "cache (snd (Item_save E it s)) = cache s"
  by (simp_all add: respond_def throw_def noResponse_def query_def uploadIfFile_def
      uploadOnCloudinary_def thenDo_def regex_i_def cacheLookup_def Item_create_def Shop_save_def
      populate_owner_def Item_findByIdAndUpdate_def Item_findByIdAndDelete_def Item_save_def Let_def
      split: option.splits upload_result.splits)

lemmas keep_rules = keep_tryCatch keep_thenDo keep_db

text \<open>
  C3. No mutation (\<^verbatim>\<open>addItem\<close>, \<^verbatim>\<open>editItem\<close>, \<^verbatim>\<open>deleteItem\<close>, \<^verbatim>\<open>rating\<close>) removes
  or overwrites an entry of the cache: whatever the request and whatever fails, the
  cache after the handler is the cache before it. A reader therefore keeps receiving
  the cached payload until it expires.
\<close>

theorem mutations_keep_cache:
  "cache (snd (addItem E userId nf file s)) = cache s
   \<and> cache (snd (editItem E userId itemId ef file s)) = cache s
   \<and> cache (snd (deleteItem E userId itemId s)) = cache s
   \<and> cache (snd (rating E itemIdParam ratingParam s)) = cache s"
proof -
  have a: "cache (snd (addItem E userId nf file s)) = cache s"
    unfolding addItem_def
    by (intro keep_rules) (simp_all add: keep_simple keep_rules Let_def split: option.splits)
  have b: "cache (snd (editItem E userId itemId ef file s)) = cache s"
    unfolding editItem_def
    by (intro keep_rules) (simp_all add: keep_simple keep_rules Let_def split: option.splits)
  have c: "cache (snd (deleteItem E userId itemId s)) = cache s"
    unfolding deleteItem_def
    by (intro keep_rules) (simp_all add: keep_simple keep_rules Let_def split: option.splits)
  have d: "cache (snd (rating E itemIdParam ratingParam s)) = cache s"
    unfolding rating_def
    by (intro keep_rules) (simp_all add: keep_simple keep_rules Let_def split: option.splits prod.splits)
  show ?thesis using a b c d by blast
qed

theorem mutations_keep_cache_witness:
  "cache (snd (rating E0 (Some ''i1'') (Some 5) s1)) = cache s1
   \<and> map_option item_rating (Item_findById ''i1'' (snd (rating E0 (Some ''i1'') (Some 5) s1)))
        = Some \<lparr>average = Num 5, count = Num 1\<rparr>
   \<and> fst (getItemByCity E0 (Some ''Pune'') (snd (rating E0 (Some ''i1'') (Some 5) s1)))
        = Some \<lparr>status = 200, body = pune_payload\<rparr>"
proof -
  let ?s = "snd (rating E0 (Some ''i1'') (Some 5) s1)"
  have keep: "cache ?s = cache s1"
    using mutations_keep_cache [of E0 "''u1''" _ None s1 "''i1''" _ "Some ''i1''" "Some 5"] by blast
  have stored: "map_option item_rating (Item_findById ''i1'' ?s) = Some \<lparr>average = Num 5, count = Num 1\<rparr>"
    by (simp add: rating_def eval_defs Item_save_def s1_def)
  have "cache_get E0 (city_cacheKey E0 ''Pune'') ?s = Some pune_payload"
    using s1_lookup keep by (simp add: cache_get_def)
  then have "fst (getItemByCity E0 (Some ''Pune'') ?s) = Some \<lparr>status = 200, body = pune_payload\<rparr>"
    using city_reader [of E0 "Some ''Pune''" ?s] by (simp add: truthy_def)
  then show ?thesis using keep stored by blast
qed

subsection \<open>How failures are answered\<close>

lemmas fail_defs = reports_def failure_response_def success_response_def is_message_def
  upload_fails_def store_fails_def pattern_fails_def no_shop_in_city_def

lemma upload_outcome:
  "upload_fails file \<Longrightarrow> \<exists>e. uploadIfFile file s = (Inl e, s)"
  "\<not> upload_fails file \<Longrightarrow> \<exists>img. uploadIfFile file s = (Inr img, s)"
  by (auto simp: upload_fails_def uploadIfFile_def uploadOnCloudinary_def thenDo_def
      split: option.splits upload_result.splits)

lemma addItem_reports:
  "reports (addItem_fails E userId file s) (fst (addItem E userId nf file s))"
proof (cases "upload_fails file")
  case True
  with upload_outcome(1) [OF True, of s] show ?thesis
    by (auto simp: addItem_fails_def fail_defs addItem_def thenDo_def tryCatch_def)
next
  case up: False
  from upload_outcome(2) [OF up, of s] obtain img where img: "uploadIfFile file s = (Inr img, s)" ..
  show ?thesis
  proof (cases "db_fault E 0")
    case (Some e)
    then show ?thesis using img
      by (simp add: addItem_fails_def fail_defs addItem_def step_defs)
  next
    case f0: None
    show ?thesis
    proof (cases "Shop_findOne_owner userId s")
      case None
      then show ?thesis using img f0
        by (simp add: addItem_fails_def fail_defs addItem_def step_defs)
    next
      case (Some sh)
      then show ?thesis using img f0 up
        by (simp add: addItem_fails_def fail_defs addItem_def step_defs Item_create_def
            Shop_save_def populate_owner_def Let_def split: option.splits)
    qed
  qed
qed

lemma editItem_reports:
  "reports (editItem_fails E itemId file s) (fst (editItem E userId itemId ef file s))"
  by (auto simp: editItem_fails_def fail_defs editItem_def step_defs uploadIfFile_def
      uploadOnCloudinary_def Item_findByIdAndUpdate_def Let_def
      split: option.splits upload_result.splits)

lemma getItemById_reports:
  "reports (getItemById_fails E itemId s) (fst (getItemById E itemId s))"
  by (auto simp: getItemById_fails_def fail_defs getItemById_def step_defs
      split: option.splits)

lemma deleteItem_reports:
  "reports (deleteItem_fails E userId itemId s) (fst (deleteItem E userId itemId s))"
  by (auto simp: deleteItem_fails_def fail_defs deleteItem_def step_defs
      Item_findByIdAndDelete_def Shop_save_def Shop_findOne_owner_def Let_def
      split: option.splits)

lemma getItemByCity_reports:
  "reports (getItemByCity_fails E city s) (fst (getItemByCity E city s))"
  by (auto simp: getItemByCity_fails_def fail_defs getItemByCity_def step_defs cache_set_def regex_i_def Let_def
      split: option.splits sum.splits prod.splits)

lemma getItemsByShop_reports:
  "reports (getItemsByShop_fails E shopId s) (fst (getItemsByShop E shopId s))"
  by (auto simp: getItemsByShop_fails_def fail_defs getItemsByShop_def step_defs cache_set_def Let_def
      split: option.splits sum.splits prod.splits)

lemma searchItems_reports:
  "q \<noteq> [] \<Longrightarrow> c \<noteq> [] \<Longrightarrow>
   reports (searchItems_fails E q c s) (fst (searchItems E (Some q) (Some c) s))"
  by (auto simp: searchItems_fails_def fail_defs searchItems_def step_defs cache_set_def regex_i_def Let_def
      split: option.splits sum.splits prod.splits)

lemma rating_reports:
  "reports (rating_fails E itemIdParam ratingParam s) (fst (rating E itemIdParam ratingParam s))"
  by (auto simp: rating_fails_def fail_defs rating_def step_defs Item_save_def Let_def
      split: option.splits prod.splits)

text \<open>
  C8. When \<^verbatim>\<open>query\<close> or \<^verbatim>\<open>city\<close> is absent (or empty), \<^verbatim>\<open>searchItems\<close> sends no
  response and leaves the state as it was. Every other failure, of \<^verbatim>\<open>searchItems\<close> and
  of the seven other handlers, is answered with status 400, 404 or 500 and a JSON
  \<^verbatim>\<open>{ message }\<close>; where nothing fails the answer has status 200 or 201. (A requester
  without a shop is no failure of \<^verbatim>\<open>editItem\<close> in the source: the item is updated and the
  answer is 200 with \<^verbatim>\<open>null\<close>.)
\<close>

theorem failures_are_answered_except_search:
  "(truthy queryParam = None \<or> truthy city = None \<longrightarrow>
      searchItems E queryParam city s = (None, s))
   \<and> (\<forall>q c. truthy queryParam = Some q \<and> truthy city = Some c \<longrightarrow>
        reports (searchItems_fails E q c s) (fst (searchItems E queryParam city s)))
   \<and> reports (addItem_fails E userId file s) (fst (addItem E userId nf file s))
   \<and> reports (editItem_fails E itemId file s) (fst (editItem E userId itemId ef file s))
   \<and> reports (getItemById_fails E itemId s) (fst (getItemById E itemId s))
   \<and> reports (deleteItem_fails E userId itemId s) (fst (deleteItem E userId itemId s))
   \<and> reports (getItemByCity_fails E city s) (fst (getItemByCity E city s))
   \<and> reports (getItemsByShop_fails E shopId s) (fst (getItemsByShop E shopId s))
   \<and> reports (rating_fails E itemIdParam ratingParam s) (fst (rating E itemIdParam ratingParam s))"
proof -
  have none: "searchItems E queryParam city s = (None, s)"
    if "truthy queryParam = None \<or> truthy city = None"
    using that by (auto simp: searchItems_def tryCatch_def noResponse_def split: option.splits)
  have some: "reports (searchItems_fails E q c s) (fst (searchItems E queryParam city s))"
    if "truthy queryParam = Some q \<and> truthy city = Some c" for q c
  proof -
    from that have "queryParam = Some q" "q \<noteq> []" "city = Some c" "c \<noteq> []"
      by (auto simp: truthy_def split: option.splits if_splits)
    then show ?thesis using searchItems_reports [of q c E s] by simp
  qed
  have p1: "truthy queryParam = None \<or> truthy city = None \<longrightarrow>
      searchItems E queryParam city s = (None, s)"
    using none by blast
  have p2: "\<forall>q c. truthy queryParam = Some q \<and> truthy city = Some c \<longrightarrow>
        reports (searchItems_fails E q c s) (fst (searchItems E queryParam city s))"
    using some by blast
  show ?thesis
    by (intro conjI p1 p2 addItem_reports editItem_reports getItemById_reports deleteItem_reports
      getItemByCity_reports getItemsByShop_reports rating_reports)
qed

theorem failures_are_answered_except_search_witness:
  "truthy None = None
   \<and> searchItems E0 None (Some ''Pune'') s0 = (None, s0)
   \<and> truthy (Some ''.'') = Some ''.'' \<and> truthy (Some ''Goa'') = Some ''Goa''
   \<and> searchItems_fails E0 ''.'' ''Goa'' s0
   \<and> failure_response (fst (searchItems E0 (Some ''.'') (Some ''Goa'') s0))
   \<and> getItemById_fails E0 ''i7'' s0
   \<and> failure_response (fst (getItemById E0 ''i7'' s0))
   \<and> deleteItem_fails E0 ''u9'' ''i1'' s0
   \<and> failure_response (fst (deleteItem E0 ''u9'' ''i1'' s0))
   \<and> rating_fails E0 (Some ''i1'') (Some 6) s0
   \<and> failure_response (fst (rating E0 (Some ''i1'') (Some 6) s0))
   \<and> success_response (fst (getItemById E0 ''i1'' s0))"
proof -
  have t: "truthy None = None" "truthy (Some ''.'') = Some ''.''" "truthy (Some ''Goa'') = Some ''Goa''"
    by (simp_all add: truthy_def)
  have a: "searchItems E0 None (Some ''Pune'') s0 = (None, s0)"
    using failures_are_answered_except_search [of None "Some ''Pune''" E0 s0] t(1) by blast
  have f1: "searchItems_fails E0 ''.'' ''Goa'' s0"
    by (simp add: searchItems_fails_def no_shop_in_city_def eval_defs)
  have f2: "getItemById_fails E0 ''i7'' s0"
    by (simp add: getItemById_fails_def eval_defs)
  have f3: "deleteItem_fails E0 ''u9'' ''i1'' s0"
    by (simp add: deleteItem_fails_def Shop_findOne_owner_def s0_def pune_shop_def five_shop_def)
  have f4: "rating_fails E0 (Some ''i1'') (Some 6) s0"
    by (simp add: rating_fails_def truthy_def truthyNum_def)
  have f5: "\<not> getItemById_fails E0 ''i1'' s0"
    by (simp add: getItemById_fails_def store_fails_def eval_defs)
  note inst = failures_are_answered_except_search
    [of "Some ''.''" "Some ''Goa''" E0 s0 "''u9''" None _ "''i1''" _ _ "Some ''i1''" "Some 6"]
  have r1: "failure_response (fst (searchItems E0 (Some ''.'') (Some ''Goa'') s0))"
    using inst t f1 by (auto simp: reports_def)
  have r3: "failure_response (fst (deleteItem E0 ''u9'' ''i1'' s0))"
    using inst f3 by (auto simp: reports_def)
  have r4: "failure_response (fst (rating E0 (Some ''i1'') (Some 6) s0))"
    using inst f4 by (auto simp: reports_def)
  have r5: "success_response (fst (getItemById E0 ''i1'' s0))"
    using inst f5 by (auto simp: reports_def)
  have r2: "failure_response (fst (getItemById E0 ''i7'' s0))"
    using failures_are_answered_except_search [of None None E0 s0 _ _ _  "''i7''"] f2
    by (auto simp: reports_def)
  show ?thesis
    by (intro conjI t a f1 r1 f2 r2 f3 r3 f4 r4 r5)
qed

subsection \<open>Request text read as a pattern\<close>

text \<open>
  C4, on the code: the query \<^verbatim>\<open>.\<close> in Pune, on a cache miss. The handler passes the
  query to \<^verbatim>\<open>$regex\<close> without escaping it, so the dot is read as "any character": the
  answer holds "Pizza" (category "Italian") and "Cheese Burger" (category "Fast Food"),
  and neither name nor category of "Pizza" contains a dot.
\<close>

theorem searchItems_reads_query_as_pattern:
  "cache_get E0 (search_cacheKey E0 ''Pune'' ''.'') s0 = None
   \<and> pune_shop \<in> set (shop_coll s0) \<and> ci_equal E0 ''Pune'' (shop_city pune_shop)
   \<and> fst (searchItems E0 (Some ''.'') (Some ''Pune'') s0) =
       Some \<lparr>status = 200, body = FoundItems [item_proj.truncate pizza, item_proj.truncate burger]\<rparr>
   \<and> \<not> ci_contains E0 ''.'' (item_name pizza) \<and> \<not> ci_contains E0 ''.'' (item_category pizza)"
  by (simp add: searchItems_def eval_defs ci_equal_def ci_contains_def sublist_Cons_right)

text \<open>The city is read as a pattern in the same way: \<^verbatim>\<open>P.ne\<close> selects the shops of Pune.\<close>

lemma searchItems_city_pattern_example:
  "fst (searchItems E0 (Some ''.'') (Some ''P.ne'') s0) =
       Some \<lparr>status = 200, body = FoundItems [item_proj.truncate pizza, item_proj.truncate burger]\<rparr>
   \<and> \<not> ci_equal E0 ''P.ne'' (shop_city pune_shop)"
  by (simp add: searchItems_def eval_defs ci_equal_def)

text \<open>
  C6, on the code: the cities \<^verbatim>\<open>\d\<close> and \<^verbatim>\<open>\D\<close> differ only in letter case and get
  the same cache key, but the handler puts the city into \<^verbatim>\<open>new RegExp\<close> without escaping
  it: the first selects the shop whose city is "5" and answers 200, the second selects no
  shop and answers 404.
\<close>

theorem getItemByCity_reads_city_as_pattern:
  "toLowerCase E0 [backslash, CHR ''D''] = toLowerCase E0 [backslash, CHR ''d'']
   \<and> city_cacheKey E0 [backslash, CHR ''D''] = city_cacheKey E0 [backslash, CHR ''d'']
   \<and> fst (getItemByCity E0 (Some [backslash, CHR ''d'']) s0) =
       Some \<lparr>status = 200, body = CityItems
         [attachShopInfo (shopMap_of [five_shop]) (item_proj.truncate dosa)]\<rparr>
   \<and> fst (getItemByCity E0 (Some [backslash, CHR ''D'']) s0) =
       Some \<lparr>status = 404, body = Message ''No shops found in this city''\<rparr>"
  by (simp add: getItemByCity_def eval_defs)

text \<open>On the claim's own example the two requests are answered alike.\<close>

lemma getItemByCity_Pune_pune:
  "getItemByCity E0 (Some ''Pune'') s0 = getItemByCity E0 (Some ''pune'') s0"
  by (simp add: getItemByCity_def eval_defs)

end
